theory Spec2Isabelle
  imports Complex_Main
begin

section \<open>Data model\<close>

text \<open>
  The status snapshot that \<open>checkIfTokensUnlocked\<close> returns and that the dashboard keeps
  in its \<open>unlockStatus\<close> state. Timestamps are epoch seconds; the amount is the string
  produced by \<open>ethers.utils.formatEther\<close> (or a literal in demo mode).
\<close>

record UnlockStatus =
  isUnlocked :: bool
  unlockedUntil :: int
  unlockedAmount :: string
  nextAttemptTime :: int
  hasCommit :: bool

section \<open>Rendering numbers\<close>

definition digit :: "nat \<Rightarrow> char" where
  "digit d = ''0123456789'' ! d"

function show_nat :: "nat \<Rightarrow> string" where
  "show_nat n = (if n < 10 then [digit n] else show_nat (n div 10) @ [digit (n mod 10)])"
  by pat_completeness auto
termination
  by (relation "measure id") auto

declare show_nat.simps [simp del]

text \<open>Template-literal interpolation of an integral JavaScript number.\<close>

definition js_toString :: "int \<Rightarrow> string" where
  "js_toString i = (if i < 0 then CHR ''-'' # show_nat (nat (- i)) else show_nat (nat i))"

text \<open>JavaScript \<open>%\<close>: the result takes the sign of the dividend.\<close>

definition js_rem :: "int \<Rightarrow> int \<Rightarrow> int" where
  "js_rem a b = sgn a * (\<bar>a\<bar> mod \<bar>b\<bar>)"

section \<open>\<open>formatTimeRemaining\<close> (src/lib/contract.ts)\<close>

text \<open>
  \<open>now\<close> is the value of \<open>Math.floor(Date.now() / 1000)\<close> at the call;
  \<open>Math.floor(x / k)\<close> on integers is \<open>div\<close>.
\<close>

definition formatTimeRemaining :: "int \<Rightarrow> int \<Rightarrow> string" where
  "formatTimeRemaining now timestamp =
     (let diff = timestamp - now in
      if diff \<le> 0 then ''Expired''
      else
        let hours = diff div 3600;
            minutes = js_rem diff 3600 div 60
        in js_toString hours @ ''h '' @ js_toString minutes @ ''m'')"


section \<open>Errors, the wallet provider and the contract\<close>

text \<open>
  A thrown JavaScript value: an error with its \<open>message\<close>, or (\<open>Bare\<close>) a value that has
  no \<open>message\<close> property. The code inspects only \<open>error.message\<close>; the kind records what
  went wrong, so that transport errors and user rejections can be told apart from
  contract reverts in the statements below.
\<close>

datatype fault_kind = TransportError | RejectedByUser | ContractRevert | NumericFault | TypeError

datatype fault = Fault fault_kind string | Bare fault_kind


fun message :: "fault \<Rightarrow> string option" where
  "message (Fault k m) = Some m"
| "message (Bare k) = None"


definition and_then :: "'e + 'a \<Rightarrow> ('a \<Rightarrow> 'e + 'b) \<Rightarrow> 'e + 'b" where
  "and_then r f = (case r of Inl e \<Rightarrow> Inl e | Inr x \<Rightarrow> f x)"

text \<open>
  Library and runtime functions that the source calls and does not define:
  \<open>BigNumber.toNumber\<close> (which may throw), \<open>ethers.utils.formatEther\<close> and
  \<open>Number.parseInt\<close> (\<open>None\<close> stands for \<open>NaN\<close>). They are parameters of the model.
\<close>

record runtime =
  toNumber :: "nat \<Rightarrow> fault + int"
  formatEther :: "nat \<Rightarrow> string"
  parseInt :: "string \<Rightarrow> int option"

text \<open>What the contract stores for one address, as read through the ABI's view functions.\<close>

record acct =
  snapshotUnlockedUntil :: nat
  unlockedTokenAmount :: nat
  snapshotLastUnlockAttempt :: nat
  commits_hash :: string
  balanceOf :: nat

type_synonym chain = "string \<Rightarrow> acct"

definition HashZero :: string where
  "HashZero = ''0x'' @ replicate 64 (CHR ''0'')"

datatype contract_call =
    Call_balanceOf string
  | Call_snapshotUnlockedUntil string
  | Call_unlockedTokenAmount string
  | Call_snapshotLastUnlockAttempt string
  | Call_commits string
  | Call_commitHash int
  | Call_revealAndUnlock int

text \<open>The functions that \<open>CONTRACT_ABI\<close> declares as \<open>view\<close>.\<close>

fun is_view :: "contract_call \<Rightarrow> bool" where
  "is_view (Call_commitHash n) = False"
| "is_view (Call_revealAndUnlock n) = False"
| "is_view c = True"

text \<open>
  The reply to a state-changing contract call \<open>const tx = await contract.f(n)\<close> followed by
  \<open>await tx.wait()\<close>: the first promise rejects and no transaction is mined; or the
  transaction is sent with a hash and \<open>wait\<close> rejects; or \<open>wait\<close> resolves to a receipt
  with its (optional) list of event names. The last two carry the chain as it is
  afterwards.
\<close>

datatype tx_reply =
    SendFailed fault
  | WaitFailed string fault chain
  | Mined string "string list option" chain

text \<open>
  The browser and network around the code: whether \<open>window.ethereum\<close> exists, the outcome
  of the wallet's account negotiation, the fault (if any) with which
  \<open>eth_requestAccounts\<close> and each view call reject, and how the deployed contract answers
  the two transactions.
\<close>

record env =
  ethereum :: bool
  wallet_connect :: "fault + string"
  requestAccounts :: "fault option"
  view_fault :: "contract_call \<Rightarrow> fault option"
  revealAndUnlock :: "chain \<Rightarrow> int \<Rightarrow> tx_reply"
  commitHash :: "chain \<Rightarrow> int \<Rightarrow> tx_reply"

definition getProvider :: "env \<Rightarrow> fault + unit" where
  "getProvider E =
     (if ethereum E then Inr () else Inl (Fault TransportError ''MetaMask is not installed''))"

definition view_call :: "env \<Rightarrow> contract_call \<Rightarrow> 'a \<Rightarrow> fault + 'a" where
  "view_call E k v = (case view_fault E k of Some e \<Rightarrow> Inl e | None \<Rightarrow> Inr v)"

definition send_requestAccounts :: "env \<Rightarrow> fault + unit" where
  "send_requestAccounts E = (case requestAccounts E of Some e \<Rightarrow> Inl e | None \<Rightarrow> Inr ())"

section \<open>src/lib/contract.ts\<close>

definition default_status :: UnlockStatus where
  "default_status =
     \<lparr>isUnlocked = False, unlockedUntil = 0, unlockedAmount = ''0'',
      nextAttemptTime = 0, hasCommit = False\<rparr>"

text \<open>
  \<open>checkIfTokensUnlocked\<close>. The four reads of \<open>Promise.all\<close> are all dispatched once the
  provider exists; the first rejection, or a throwing \<open>toNumber\<close>, is the function's
  rejection. The second component lists the contract calls made.
\<close>

definition status_calls :: "string \<Rightarrow> contract_call list" where
  "status_calls a =
     [Call_snapshotUnlockedUntil a, Call_unlockedTokenAmount a,
      Call_snapshotLastUnlockAttempt a, Call_commits a]"

definition checkIfTokensUnlocked ::
  "runtime \<Rightarrow> env \<Rightarrow> chain \<Rightarrow> string \<Rightarrow> int \<Rightarrow> (fault + UnlockStatus) \<times> contract_call list" where
  "checkIfTokensUnlocked R E c a now =
     (case getProvider E of
        Inl e \<Rightarrow> (Inl e, [])
      | Inr u \<Rightarrow>
         (and_then (view_call E (Call_snapshotUnlockedUntil a) (snapshotUnlockedUntil (c a))) (\<lambda>unlockedUntil'.
          and_then (view_call E (Call_unlockedTokenAmount a) (unlockedTokenAmount (c a))) (\<lambda>unlockedAmount'.
          and_then (view_call E (Call_snapshotLastUnlockAttempt a) (snapshotLastUnlockAttempt (c a))) (\<lambda>lastAttempt.
          and_then (view_call E (Call_commits a) (commits_hash (c a))) (\<lambda>commit_hash.
          and_then (toNumber R lastAttempt) (\<lambda>lastAttemptN.
          and_then (toNumber R unlockedUntil') (\<lambda>unlockedUntilN.
            Inr \<lparr>isUnlocked = (now \<le> unlockedUntilN \<and> unlockedAmount' > 0),
                 unlockedUntil = unlockedUntilN,
                 unlockedAmount = formatEther R unlockedAmount',
                 nextAttemptTime = lastAttemptN + 24 * 60 * 60,
                 hasCommit = (commit_hash \<noteq> HashZero)\<rparr>)))))),
          status_calls a))"

definition getTokenBalance ::
  "runtime \<Rightarrow> env \<Rightarrow> chain \<Rightarrow> string \<Rightarrow> (fault + string) \<times> contract_call list" where
  "getTokenBalance R E c a =
     (case getProvider E of
        Inl e \<Rightarrow> (Inl e, [])
      | Inr u \<Rightarrow>
         (and_then (view_call E (Call_balanceOf a) (balanceOf (c a))) (\<lambda>b. Inr (formatEther R b)),
          [Call_balanceOf a]))"

text \<open>\<open>String.prototype.includes\<close>.\<close>

fun startsWith :: "string \<Rightarrow> string \<Rightarrow> bool" where
  "startsWith s [] = True"
| "startsWith [] (p # ps) = False"
| "startsWith (x # xs) (p # ps) = (x = p \<and> startsWith xs ps)"

fun js_includes :: "string \<Rightarrow> string \<Rightarrow> bool" where
  "js_includes [] p = (p = [])"
| "js_includes (x # xs) p = (startsWith (x # xs) p \<or> js_includes xs p)"

record RevealResult =
  success :: bool
  hash :: string
  error :: "string option"

text \<open>The \<open>catch\<close> block of \<open>revealNumber\<close>: the message chosen from \<open>error.message\<close>.\<close>

definition revealErrorMessage :: "string \<Rightarrow> string" where
  "revealErrorMessage m =
     (if js_includes m ''Only one attempt per day'' then ''You can only attempt to unlock once per day''
      else if js_includes m ''No commit found'' then ''No commit found. Please commit a number first''
      else if js_includes m ''Wait at least one block'' then ''Please wait at least one block after committing''
      else if js_includes m ''Hash does not match'' then ''The number doesn't match your committed hash''
      else if js_includes m ''Commit expired'' then ''Your commit has expired. Please commit again''
      else if js_includes m ''Unlock attempt failed'' then
        ''Unlock attempt failed. You had a 20% chance of success (random number not divisible by 5)''
      else ''Transaction failed'')"

text \<open>
  The \<open>catch\<close> block as a whole. When the caught value has no message,
  \<open>error.message.includes\<close> itself throws a \<open>TypeError\<close>, which leaves the function.
\<close>

definition reveal_caught :: "fault \<Rightarrow> fault + RevealResult" where
  "reveal_caught e =
     (case message e of
        None \<Rightarrow> Inl (Fault TypeError ''Cannot read properties of undefined (reading 'includes')'')
      | Some m \<Rightarrow> Inr \<lparr>success = False, hash = [], error = Some (revealErrorMessage m)\<rparr>)"

text \<open>The \<open>try\<close> block from the contract call on, shared by both variants of \<open>revealNumber\<close>.\<close>

definition reveal_tx ::
  "env \<Rightarrow> chain \<Rightarrow> int \<Rightarrow> (fault + RevealResult) \<times> chain \<times> contract_call list" where
  "reveal_tx E c n =
     (case revealAndUnlock E c n of
        SendFailed e \<Rightarrow> (reveal_caught e, c, [Call_revealAndUnlock n])
      | WaitFailed h e c' \<Rightarrow> (reveal_caught e, c', [Call_revealAndUnlock n])
      | Mined h events c' \<Rightarrow>
          (Inr \<lparr>success = (case events of None \<Rightarrow> False | Some es \<Rightarrow> ''TokensUnlocked'' \<in> set es),
                hash = h, error = None\<rparr>, c', [Call_revealAndUnlock n]))"

text \<open>\<open>revealNumber\<close> of src/lib/contract.ts: \<open>getProvider\<close> is called outside the \<open>try\<close>.\<close>

definition revealNumber ::
  "env \<Rightarrow> chain \<Rightarrow> int \<Rightarrow> (fault + RevealResult) \<times> chain \<times> contract_call list" where
  "revealNumber E c n =
     (case getProvider E of
        Inl e \<Rightarrow> (Inl e, c, [])
      | Inr u \<Rightarrow> reveal_tx E c n)"

definition commit_tx :: "env \<Rightarrow> chain \<Rightarrow> int \<Rightarrow> (fault + string) \<times> chain \<times> contract_call list" where
  "commit_tx E c n =
     (case commitHash E c n of
        SendFailed e \<Rightarrow> (Inl e, c, [Call_commitHash n])
      | WaitFailed h e c' \<Rightarrow> (Inl e, c', [Call_commitHash n])
      | Mined h events c' \<Rightarrow> (Inr h, c', [Call_commitHash n]))"

definition commitNumber ::
  "env \<Rightarrow> chain \<Rightarrow> int \<Rightarrow> (fault + string) \<times> chain \<times> contract_call list" where
  "commitNumber E c n =
     (case getProvider E of
        Inl e \<Rightarrow> (Inl e, c, [])
      | Inr u \<Rightarrow> commit_tx E c n)"

section \<open>The variant of the contract module in src/lib/wallet.ts\<close>

text \<open>
  The second module of src/lib/wallet.ts defines the same functions with every body
  wrapped in \<open>try\<close>/\<open>catch\<close>: the status and balance queries return default values
  on any error, and the transactions first send \<open>eth_requestAccounts\<close>.
\<close>

definition checkIfTokensUnlocked_w ::
  "runtime \<Rightarrow> env \<Rightarrow> chain \<Rightarrow> string \<Rightarrow> int \<Rightarrow> UnlockStatus \<times> contract_call list" where
  "checkIfTokensUnlocked_w R E c a now =
     (case checkIfTokensUnlocked R E c a now of
        (Inr s, calls) \<Rightarrow> (s, calls)
      | (Inl e, calls) \<Rightarrow> (default_status, calls))"

definition getTokenBalance_w ::
  "runtime \<Rightarrow> env \<Rightarrow> chain \<Rightarrow> string \<Rightarrow> string \<times> contract_call list" where
  "getTokenBalance_w R E c a =
     (case getTokenBalance R E c a of
        (Inr b, calls) \<Rightarrow> (b, calls)
      | (Inl e, calls) \<Rightarrow> (''0'', calls))"

definition revealNumber_w ::
  "env \<Rightarrow> chain \<Rightarrow> int \<Rightarrow> (fault + RevealResult) \<times> chain \<times> contract_call list" where
  "revealNumber_w E c n =
     (case getProvider E of
        Inl e \<Rightarrow> (reveal_caught e, c, [])
      | Inr u \<Rightarrow>
         (case send_requestAccounts E of
            Inl e \<Rightarrow> (reveal_caught e, c, [])
          | Inr u' \<Rightarrow> reveal_tx E c n))"

definition commitNumber_w ::
  "env \<Rightarrow> chain \<Rightarrow> int \<Rightarrow> (fault + string) \<times> chain \<times> contract_call list" where
  "commitNumber_w E c n =
     (case getProvider E of
        Inl e \<Rightarrow> (Inl e, c, [])
      | Inr u \<Rightarrow>
         (case send_requestAccounts E of
            Inl e \<Rightarrow> (Inl e, c, [])
          | Inr u' \<Rightarrow> commit_tx E c n))"

text \<open>Which of the two modules the components' import \<open>@/lib/contract\<close> resolves to.\<close>

datatype lib = Plain | Guarded

definition lib_checkIfTokensUnlocked ::
  "lib \<Rightarrow> runtime \<Rightarrow> env \<Rightarrow> chain \<Rightarrow> string \<Rightarrow> int \<Rightarrow> (fault + UnlockStatus) \<times> contract_call list" where
  "lib_checkIfTokensUnlocked v R E c a now =
     (case v of
        Plain \<Rightarrow> checkIfTokensUnlocked R E c a now
      | Guarded \<Rightarrow> (case checkIfTokensUnlocked_w R E c a now of (s, calls) \<Rightarrow> (Inr s, calls)))"

definition lib_getTokenBalance ::
  "lib \<Rightarrow> runtime \<Rightarrow> env \<Rightarrow> chain \<Rightarrow> string \<Rightarrow> (fault + string) \<times> contract_call list" where
  "lib_getTokenBalance v R E c a =
     (case v of
        Plain \<Rightarrow> getTokenBalance R E c a
      | Guarded \<Rightarrow> (case getTokenBalance_w R E c a of (b, calls) \<Rightarrow> (Inr b, calls)))"

definition lib_revealNumber ::
  "lib \<Rightarrow> env \<Rightarrow> chain \<Rightarrow> int \<Rightarrow> (fault + RevealResult) \<times> chain \<times> contract_call list" where
  "lib_revealNumber v E c n =
     (case v of
        Plain \<Rightarrow> revealNumber E c n
      | Guarded \<Rightarrow> revealNumber_w E c n)"

definition lib_commitNumber ::
  "lib \<Rightarrow> env \<Rightarrow> chain \<Rightarrow> int \<Rightarrow> (fault + string) \<times> chain \<times> contract_call list" where
  "lib_commitNumber v E c n =
     (case v of Plain \<Rightarrow> commitNumber E c n | Guarded \<Rightarrow> commitNumber_w E c n)"


section \<open>The dashboard component (src/unnamed/part_001)\<close>

text \<open>
  The dashboard's React state, without the token metadata. Each handler takes the clock
  reading \<open>now = Math.floor(Date.now() / 1000)\<close> of the moment it runs and returns the
  state after its updates, with the contract calls it made.
\<close>

record dashboard =
  connected :: bool
  account :: string
  balance :: string
  demoMode :: bool
  unlockStatus :: UnlockStatus

definition initial_dashboard :: dashboard where
  "initial_dashboard =
     \<lparr>connected = False, account = [], balance = ''0'', demoMode = False,
      unlockStatus = default_status\<rparr>"

definition refreshStatus ::
  "lib \<Rightarrow> runtime \<Rightarrow> env \<Rightarrow> chain \<Rightarrow> int \<Rightarrow> dashboard \<Rightarrow> dashboard \<times> contract_call list" where
  "refreshStatus v R E c now st =
     (if account st = [] \<or> (\<not> connected st \<and> \<not> demoMode st) then (st, [])
      else if demoMode st then (st, [])
      else
        (case lib_getTokenBalance v R E c (account st) of
           (Inl e, k) \<Rightarrow> (st, k)
         | (Inr b, k) \<Rightarrow>
            (case lib_checkIfTokensUnlocked v R E c (account st) now of
               (Inl e, k') \<Rightarrow> (st\<lparr>balance := b\<rparr>, k @ k')
             | (Inr s, k') \<Rightarrow> (st\<lparr>balance := b, unlockStatus := s\<rparr>, k @ k'))))"

text \<open>\<open>connectWallet\<close> of src/lib/wallet.ts; the negotiation with the wallet is the environment's.\<close>

definition connectWallet :: "env \<Rightarrow> fault + string" where
  "connectWallet E =
     (if ethereum E then wallet_connect E
      else Inl (Fault TransportError ''Please install MetaMask to use this application''))"

text \<open>
  \<open>handleConnect\<close>. Its first argument is the value of \<open>demoMode\<close> that the closure
  captured when the component rendered.
\<close>

definition handleConnect ::
  "bool \<Rightarrow> lib \<Rightarrow> runtime \<Rightarrow> env \<Rightarrow> chain \<Rightarrow> int \<Rightarrow> dashboard \<Rightarrow> dashboard" where
  "handleConnect captured v R E c now st =
     (if captured then
        st\<lparr>account := ''0xf39Fd6e51aad88F6F4ce6aB8827279cffFb92266'', balance := ''1000.0'',
           unlockStatus := default_status, connected := True\<rparr>
      else
        (case connectWallet E of
           Inl e \<Rightarrow> st
         | Inr a \<Rightarrow>
            if a = [] then st
            else
              (case fst (lib_checkIfTokensUnlocked v R E c a now) of
                 Inl e \<Rightarrow> st\<lparr>account := a, connected := True\<rparr>
               | Inr s \<Rightarrow>
                  (case fst (lib_getTokenBalance v R E c a) of
                     Inl e \<Rightarrow> st\<lparr>account := a, unlockStatus := s, connected := True\<rparr>
                   | Inr b \<Rightarrow>
                       st\<lparr>account := a, unlockStatus := s, balance := b, connected := True\<rparr>))))"

text \<open>
  The button "Try Demo Mode", shown while neither connected nor in demo mode:
  \<open>setDemoMode(true); handleConnect()\<close>, where \<open>handleConnect\<close> is the closure of the
  current render.
\<close>

definition tryDemoMode_click ::
  "lib \<Rightarrow> runtime \<Rightarrow> env \<Rightarrow> chain \<Rightarrow> int \<Rightarrow> dashboard \<Rightarrow> dashboard" where
  "tryDemoMode_click v R E c now st =
     (if \<not> connected st \<and> \<not> demoMode st
      then handleConnect (demoMode st) v R E c now (st\<lparr>demoMode := True\<rparr>)
      else st)"

definition handleDisconnect :: "dashboard \<Rightarrow> dashboard" where
  "handleDisconnect st =
     st\<lparr>connected := False, account := [], balance := ''0'', unlockStatus := default_status,
        demoMode := False\<rparr>"

definition handleUnlock ::
  "lib \<Rightarrow> runtime \<Rightarrow> env \<Rightarrow> chain \<Rightarrow> int \<Rightarrow> dashboard \<Rightarrow> dashboard \<times> contract_call list" where
  "handleUnlock v R E c now st =
     (if demoMode st then
        (st\<lparr>unlockStatus :=
             \<lparr>isUnlocked = True, unlockedUntil = now + 24 * 60 * 60, unlockedAmount = ''1000.0'',
              nextAttemptTime = 0, hasCommit = False\<rparr>\<rparr>, [])
      else refreshStatus v R E c now st)"

definition handleDemoCommit :: "dashboard \<Rightarrow> dashboard" where
  "handleDemoCommit st = st\<lparr>unlockStatus := (unlockStatus st)\<lparr>hasCommit := True\<rparr>\<rparr>"

definition handleDemoReveal :: "bool \<Rightarrow> int \<Rightarrow> dashboard \<Rightarrow> dashboard" where
  "handleDemoReveal success' now st =
     (if success' then
        st\<lparr>unlockStatus :=
             \<lparr>isUnlocked = True, unlockedUntil = now + 24 * 60 * 60, unlockedAmount = ''1000.0'',
              nextAttemptTime = 0, hasCommit = False\<rparr>\<rparr>
      else
        st\<lparr>unlockStatus :=
             \<lparr>isUnlocked = False, unlockedUntil = 0, unlockedAmount = ''0'',
              nextAttemptTime = now + 24 * 60 * 60, hasCommit = False\<rparr>\<rparr>)"

section \<open>The commit-reveal component (src/components/commit-reveal.tsx)\<close>

record commit_reveal =
  number :: string
  isCommitting :: bool
  isRevealing :: bool
  unlockFailed :: bool

type_synonym app = "dashboard \<times> commit_reveal \<times> chain \<times> contract_call list"

text \<open>
  \<open>handleCommit\<close>, from the click to the end of its \<open>finally\<close> block; \<open>now\<close> is the
  clock when the awaited commit has completed.
\<close>

definition handleCommit ::
  "lib \<Rightarrow> runtime \<Rightarrow> env \<Rightarrow> chain \<Rightarrow> int \<Rightarrow> dashboard \<Rightarrow> commit_reveal \<Rightarrow> app" where
  "handleCommit v R E c now st cr =
     (if number cr = [] then (st, cr, c, [])
      else
        (case parseInt R (number cr) of
           None \<Rightarrow> (st, cr, c, [])
         | Some n \<Rightarrow>
            if demoMode st then
              (case refreshStatus v R E c now (handleDemoCommit st) of
                 (st', k) \<Rightarrow> (st', cr\<lparr>isCommitting := False\<rparr>, c, k))
            else
              (case lib_commitNumber v E c n of
                 (Inl e, c', k) \<Rightarrow> (st, cr\<lparr>isCommitting := False\<rparr>, c', k)
               | (Inr h, c', k) \<Rightarrow>
                  (case refreshStatus v R E c' now st of
                     (st', k') \<Rightarrow> (st', cr\<lparr>isCommitting := False\<rparr>, c', k @ k')))))"

text \<open>
  \<open>handleReveal\<close>; \<open>draw\<close> is the value that \<open>Math.random()\<close> returns in demo mode.
\<close>

definition handleReveal ::
  "lib \<Rightarrow> runtime \<Rightarrow> env \<Rightarrow> chain \<Rightarrow> int \<Rightarrow> real \<Rightarrow> dashboard \<Rightarrow> commit_reveal \<Rightarrow> app" where
  "handleReveal v R E c now draw st cr =
     (if number cr = [] then (st, cr, c, [])
      else
        (case parseInt R (number cr) of
           None \<Rightarrow> (st, cr, c, [])
         | Some n \<Rightarrow>
            if demoMode st then
              (if draw < 0.2 then
                 (case handleUnlock v R E c now (handleDemoReveal True now st) of
                    (st1, k1) \<Rightarrow>
                      (case refreshStatus v R E c now st1 of
                         (st2, k2) \<Rightarrow>
                           (st2, cr\<lparr>unlockFailed := False, isRevealing := False\<rparr>, c, k1 @ k2)))
               else
                 (case refreshStatus v R E c now (handleDemoReveal False now st) of
                    (st1, k1) \<Rightarrow> (st1, cr\<lparr>unlockFailed := True, isRevealing := False\<rparr>, c, k1)))
            else
              (case lib_revealNumber v E c n of
                 (Inl e, c', k) \<Rightarrow> (st, cr\<lparr>unlockFailed := False, isRevealing := False\<rparr>, c', k)
               | (Inr result, c', k) \<Rightarrow>
                  if success result then
                    (case handleUnlock v R E c' now st of
                       (st1, k1) \<Rightarrow>
                         (case refreshStatus v R E c' now st1 of
                            (st2, k2) \<Rightarrow>
                              (st2, cr\<lparr>unlockFailed := False, isRevealing := False\<rparr>, c',
                               k @ k1 @ k2)))
                  else
                    (case refreshStatus v R E c' now st of
                       (st1, k1) \<Rightarrow>
                         (st1, cr\<lparr>unlockFailed := True, isRevealing := False\<rparr>, c', k @ k1)))))"

text \<open>What the component renders, and the \<open>disabled\<close> attributes of its two buttons.\<close>

datatype screen = UnlockedCard | FailedCard | Form

definition screen :: "dashboard \<Rightarrow> commit_reveal \<Rightarrow> screen" where
  "screen st cr =
     (if isUnlocked (unlockStatus st) then UnlockedCard
      else if unlockFailed cr then FailedCard
      else Form)"

definition inCooldown :: "int \<Rightarrow> UnlockStatus \<Rightarrow> bool" where
  "inCooldown now s = (now < nextAttemptTime s)"

definition commitDisabled :: "int \<Rightarrow> dashboard \<Rightarrow> commit_reveal \<Rightarrow> bool" where
  "commitDisabled now st cr =
     (number cr = [] \<or> isCommitting cr \<or> isRevealing cr \<or> hasCommit (unlockStatus st)
      \<or> (inCooldown now (unlockStatus st) \<and> \<not> demoMode st))"

definition revealDisabled :: "int \<Rightarrow> dashboard \<Rightarrow> commit_reveal \<Rightarrow> bool" where
  "revealDisabled now st cr =
     (isRevealing cr \<or> (inCooldown now (unlockStatus st) \<and> \<not> demoMode st))"

text \<open>
  A click on a button runs its handler only if the button is rendered and not disabled.
  \<open>rendered\<close> is the clock of the render that computed \<open>inCooldown\<close>.
\<close>

definition commitButton_click ::
  "lib \<Rightarrow> runtime \<Rightarrow> env \<Rightarrow> chain \<Rightarrow> int \<Rightarrow> int \<Rightarrow> dashboard \<Rightarrow> commit_reveal \<Rightarrow> app" where
  "commitButton_click v R E c rendered now st cr =
     (if screen st cr = Form \<and> \<not> commitDisabled rendered st cr
      then handleCommit v R E c now st cr
      else (st, cr, c, []))"

definition revealButton_click ::
  "lib \<Rightarrow> runtime \<Rightarrow> env \<Rightarrow> chain \<Rightarrow> int \<Rightarrow> int \<Rightarrow> real \<Rightarrow> dashboard \<Rightarrow> commit_reveal \<Rightarrow> app" where
  "revealButton_click v R E c rendered now draw st cr =
     (if screen st cr = Form \<and> hasCommit (unlockStatus st) \<and> \<not> revealDisabled rendered st cr
      then handleReveal v R E c now draw st cr
      else (st, cr, c, []))"

text \<open>The button "Try Again Later" of the failure card.\<close>

definition tryAgainLater_click :: "commit_reveal \<Rightarrow> commit_reveal" where
  "tryAgainLater_click cr = cr\<lparr>unlockFailed := False, number := []\<rparr>"


section \<open>Reading an amount string; concrete runtime, chains and environments\<close>

text \<open>
  A decimal amount string denotes a positive number iff one of its digits is not zero.
  This is the reading of \<open>unlockedAmount > 0\<close> on the snapshot's string field.
\<close>

definition amountPositive :: "string \<Rightarrow> bool" where
  "amountPositive s = list_ex (\<lambda>x. x \<in> set ''123456789'') s"

text \<open>
  The runtime used in the examples: \<open>toNumber\<close> throws beyond 53 bits, \<open>formatEther\<close>
  prints 18 decimals without trailing zeros, \<open>parseInt\<close> reads a decimal numeral.
\<close>

definition example_toNumber :: "nat \<Rightarrow> fault + int" where
  "example_toNumber n = (if n < 2 ^ 53 then Inr (int n) else Inl (Fault NumericFault ''overflow''))"

definition example_formatEther :: "nat \<Rightarrow> string" where
  "example_formatEther n =
     (let d = show_nat (n mod 10 ^ 18);
          padded = replicate (18 - length d) (CHR ''0'') @ d;
          stripped = rev (dropWhile (\<lambda>x. x = CHR ''0'') (rev padded))
      in show_nat (n div 10 ^ 18) @ ''.'' @ (if stripped = [] then ''0'' else stripped))"

definition digit_value :: "char \<Rightarrow> nat option" where
  "digit_value x = map_of (zip ''0123456789'' [0, 1, 2, 3, 4, 5, 6, 7, 8, 9]) x"

definition example_parseInt :: "string \<Rightarrow> int option" where
  "example_parseInt s =
     (if s \<noteq> [] \<and> list_all (\<lambda>x. digit_value x \<noteq> None) s
      then Some (int (foldl (\<lambda>acc x. 10 * acc + the (digit_value x)) 0 s))
      else None)"

definition example_runtime :: runtime where
  "example_runtime =
     \<lparr>toNumber = example_toNumber, formatEther = example_formatEther,
      parseInt = example_parseInt\<rparr>"

definition alice :: string where
  "alice = ''0xA11CE''"

definition empty_acct :: acct where
  "empty_acct =
     \<lparr>snapshotUnlockedUntil = 0, unlockedTokenAmount = 0, snapshotLastUnlockAttempt = 0,
      commits_hash = HashZero, balanceOf = 0\<rparr>"

text \<open>A chain on which \<open>alice\<close> holds 5 tokens and has a commit recorded.\<close>

definition committed_chain :: chain where
  "committed_chain =
     (\<lambda>a. if a = alice
          then \<lparr>snapshotUnlockedUntil = 0, unlockedTokenAmount = 0,
                snapshotLastUnlockAttempt = 500, commits_hash = ''0x'' @ replicate 64 (CHR ''7''),
                balanceOf = 5000000000000000000\<rparr>
          else empty_acct)"

text \<open>A chain whose \<open>unlockedUntil\<close> for \<open>alice\<close> is 2 ^ 53, beyond what \<open>toNumber\<close> converts.\<close>

definition overflow_chain :: chain where
  "overflow_chain =
     (\<lambda>a. if a = alice
          then \<lparr>snapshotUnlockedUntil = 9007199254740992, unlockedTokenAmount = 0,
                snapshotLastUnlockAttempt = 500, commits_hash = HashZero,
                balanceOf = 5000000000000000000\<rparr>
          else empty_acct)"

text \<open>
  The chain after a block with timestamp 89997 has unlocked \<open>alice\<close>'s 5 tokens for 24
  hours and cleared her commit.
\<close>

definition unlocked_chain :: chain where
  "unlocked_chain =
     (\<lambda>a. if a = alice
          then \<lparr>snapshotUnlockedUntil = 176397, unlockedTokenAmount = 5000000000000000000,
                snapshotLastUnlockAttempt = 89997, commits_hash = HashZero,
                balanceOf = 5000000000000000000\<rparr>
          else empty_acct)"

text \<open>
  Environments: a wallet whose calls all go through, with a contract that rejects the
  reveal at gas estimation because the hash does not match; one whose user declines to
  sign; and a browser without a wallet.
\<close>

definition reverting_env :: env where
  "reverting_env =
     \<lparr>ethereum = True, wallet_connect = Inr alice, requestAccounts = None,
      view_fault = (\<lambda>k. None),
      revealAndUnlock =
        (\<lambda>c n. SendFailed (Fault ContractRevert ''execution reverted: Hash does not match'')),
      commitHash = (\<lambda>c n. Mined ''0xc0'' (Some []) c)\<rparr>"

definition declining_env :: env where
  "declining_env =
     \<lparr>ethereum = True, wallet_connect = Inr alice, requestAccounts = None,
      view_fault = (\<lambda>k. None),
      revealAndUnlock = (\<lambda>c n. SendFailed (Fault RejectedByUser ''user rejected transaction'')),
      commitHash = (\<lambda>c n. SendFailed (Fault RejectedByUser ''user rejected transaction''))\<rparr>"

text \<open>
  A wallet that rejects \<open>eth_requestAccounts\<close> and whose node answers no read, with a
  reveal that is sent but never confirmed.
\<close>

definition offline_env :: env where
  "offline_env =
     \<lparr>ethereum = True, wallet_connect = Inr alice,
      requestAccounts = Some (Fault RejectedByUser ''User rejected the request.''),
      view_fault = (\<lambda>k. Some (Fault TransportError ''could not detect network'')),
      revealAndUnlock = (\<lambda>c n. WaitFailed ''0xdead'' (Fault TransportError ''timeout'') c),
      commitHash = (\<lambda>c n. SendFailed (Fault TransportError ''could not detect network''))\<rparr>"

definition no_wallet_env :: env where
  "no_wallet_env =
     \<lparr>ethereum = False, wallet_connect = Inr alice, requestAccounts = None,
      view_fault = (\<lambda>k. None),
      revealAndUnlock = (\<lambda>c n. SendFailed (Fault TransportError ''network error'')),
      commitHash = (\<lambda>c n. SendFailed (Fault TransportError ''network error''))\<rparr>"

text \<open>Dashboard states: connected to \<open>alice\<close>, and connected to the demo wallet.\<close>

definition live_dashboard :: dashboard where
  "live_dashboard =
     \<lparr>connected = True, account = alice, balance = ''5.0'', demoMode = False,
      unlockStatus = default_status\<lparr>nextAttemptTime := 86900, hasCommit := True\<rparr>\<rparr>"

definition demo_dashboard :: dashboard where
  "demo_dashboard =
     handleConnect True Plain example_runtime no_wallet_env (\<lambda>a. empty_acct) 0
       (initial_dashboard\<lparr>demoMode := True\<rparr>)"

definition typed_42 :: commit_reveal where
  "typed_42 = \<lparr>number = ''42'', isCommitting = False, isRevealing = False, unlockFailed = False\<rparr>"

definition empty_chain :: chain where
  "empty_chain = (\<lambda>a. empty_acct)"

text \<open>The flag as the status fields and the clock determine it.\<close>

definition derived_flag :: "int \<Rightarrow> UnlockStatus \<Rightarrow> bool" where
  "derived_flag now s = (now \<le> unlockedUntil s \<and> amountPositive (unlockedAmount s))"




text \<open>
  A reveal through the live backend that the contract rejects for a hash mismatch:
  \<open>alice\<close>, past her cooldown at second 90000, clicks the reveal button.
\<close>

definition failed_live_reveal :: app where
  "failed_live_reveal =
     revealButton_click Plain example_runtime reverting_env committed_chain 90000 90000 0.5
       live_dashboard typed_42"

text \<open>
  Demo mode entered with the button "Try Demo Mode" in a browser without a wallet,
  followed by a commit and a reveal whose draw is 0.1.
\<close>

definition walletless_demo :: dashboard where
  "walletless_demo =
     tryDemoMode_click Plain example_runtime no_wallet_env empty_chain 0 initial_dashboard"

definition walletless_committed :: app where
  "walletless_committed =
     commitButton_click Plain example_runtime no_wallet_env empty_chain 10 12
       walletless_demo typed_42"

definition walletless_revealed :: app where
  "walletless_revealed =
     revealButton_click Plain example_runtime no_wallet_env empty_chain 20 1000 0.1
       (fst walletless_committed) (fst (snd walletless_committed))"

text \<open>The demo wallet after a failed reveal at second 1000, and with a commit recorded.\<close>

definition cooled_demo :: dashboard where
  "cooled_demo = handleDemoReveal False 1000 demo_dashboard"

definition committed_demo :: dashboard where
  "committed_demo = handleDemoCommit demo_dashboard"

definition unlocked_demo :: dashboard where
  "unlocked_demo = handleDemoReveal True 1000 demo_dashboard"


section \<open>Properties of \<open>formatTimeRemaining\<close>\<close>

lemma ends_with_m_not_Expired: "xs @ ''m'' \<noteq> ''Expired''"
proof
  assume "xs @ ''m'' = ''Expired''"
  then have "last (xs @ ''m'') = last ''Expired''"
    by (rule arg_cong)
  then show False
    by simp
qed

lemma js_rem_pos: "0 < a \<Longrightarrow> js_rem a 3600 = a mod 3600"
  by (simp add: js_rem_def)

lemma minutes_range: "0 \<le> ((d::int) mod 3600) div 60 \<and> (d mod 3600) div 60 < 60"
proof -
  have lo: "0 \<le> d mod 3600" and hi: "d mod 3600 \<le> 3599"
    by simp_all
  have "0 \<le> (d mod 3600) div 60"
    using lo by (simp add: pos_imp_zdiv_nonneg_iff)
  moreover have "(d mod 3600) div 60 \<le> 3599 div 60"
    using hi by (rule zdiv_mono1) simp
  ultimately show ?thesis
    by simp
qed

text \<open>
  C10. For a timestamp \<open>t\<close> and the clock \<open>now\<close>, \<open>formatTimeRemaining\<close> returns
  "Expired" exactly when \<open>t - now \<le> 0\<close>; otherwise it returns the hours
  \<open>(t - now) div 3600\<close> and the minutes \<open>((t - now) mod 3600) div 60\<close> rendered as
  "<h>h <m>m", and the minutes lie in \<open>0..59\<close>.
\<close>

theorem formatTimeRemaining_correct:
  "(formatTimeRemaining now t = ''Expired'' \<longleftrightarrow> t - now \<le> 0) \<and>
   (0 < t - now \<longrightarrow>
      formatTimeRemaining now t =
        js_toString ((t - now) div 3600) @ ''h '' @ js_toString (((t - now) mod 3600) div 60) @ ''m''
      \<and> 0 \<le> ((t - now) mod 3600) div 60 \<and> ((t - now) mod 3600) div 60 < 60)"
proof (cases "t - now \<le> 0")
  case True
  then show ?thesis
    by (simp add: formatTimeRemaining_def)
next
  case False
  then have pos: "0 < t - now"
    by simp
  have shown: "formatTimeRemaining now t =
      (js_toString ((t - now) div 3600) @ ''h '' @ js_toString (((t - now) mod 3600) div 60)) @ ''m''"
    using pos by (simp add: formatTimeRemaining_def Let_def js_rem_pos)
  then have "formatTimeRemaining now t \<noteq> ''Expired''"
    by (simp only: ends_with_m_not_Expired not_False_eq_True)
  with pos shown minutes_range [of "t - now"] show ?thesis
    by simp
qed

theorem formatTimeRemaining_correct_witness:
  "(0::int) < 87399 - 1000 \<and> formatTimeRemaining 1000 87399 = ''23h 59m''
   \<and> formatTimeRemaining 1000 87399 \<noteq> ''Expired''
   \<and> formatTimeRemaining 1000 1000 = ''Expired''"
  using formatTimeRemaining_correct [of 1000 87399] formatTimeRemaining_correct [of 1000 1000]
  by (simp add: js_toString_def show_nat.simps digit_def)


section \<open>The status query\<close>

lemma and_then_Inr_iff: "and_then r f = Inr y \<longleftrightarrow> (\<exists>x. r = Inr x \<and> f x = Inr y)"
  by (cases r) (simp_all add: and_then_def)

lemma and_then_Inl_iff:
  "and_then r f = Inl e \<longleftrightarrow> r = Inl e \<or> (\<exists>x. r = Inr x \<and> f x = Inl e)"
  by (cases r) (simp_all add: and_then_def)

lemma and_then_Inl: "and_then (Inl e) f = Inl e"
  by (simp add: and_then_def)

lemma and_then_Inr: "and_then (Inr x) f = f x"
  by (simp add: and_then_def)

lemma view_call_Inr_iff: "view_call E k v = Inr x \<longleftrightarrow> view_fault E k = None \<and> x = v"
  by (auto simp: view_call_def split: option.splits)

lemma view_call_Inl_iff: "view_call E k v = Inl e \<longleftrightarrow> view_fault E k = Some e"
  by (auto simp: view_call_def split: option.splits)

lemma check_provider:
  "ethereum E \<Longrightarrow> checkIfTokensUnlocked R E c a now =
     (and_then (view_call E (Call_snapshotUnlockedUntil a) (snapshotUnlockedUntil (c a))) (\<lambda>unlockedUntil'.
      and_then (view_call E (Call_unlockedTokenAmount a) (unlockedTokenAmount (c a))) (\<lambda>unlockedAmount'.
      and_then (view_call E (Call_snapshotLastUnlockAttempt a) (snapshotLastUnlockAttempt (c a))) (\<lambda>lastAttempt.
      and_then (view_call E (Call_commits a) (commits_hash (c a))) (\<lambda>commit_hash.
      and_then (toNumber R lastAttempt) (\<lambda>lastAttemptN.
      and_then (toNumber R unlockedUntil') (\<lambda>unlockedUntilN.
        Inr \<lparr>isUnlocked = (now \<le> unlockedUntilN \<and> unlockedAmount' > 0),
             unlockedUntil = unlockedUntilN,
             unlockedAmount = formatEther R unlockedAmount',
             nextAttemptTime = lastAttemptN + 24 * 60 * 60,
             hasCommit = (commit_hash \<noteq> HashZero)\<rparr>)))))),
      status_calls a)"
  by (simp add: checkIfTokensUnlocked_def getProvider_def)

lemma check_no_provider:
  "\<not> ethereum E \<Longrightarrow>
   checkIfTokensUnlocked R E c a now = (Inl (Fault TransportError ''MetaMask is not installed''), [])"
  by (simp add: checkIfTokensUnlocked_def getProvider_def)

lemma check_success_iff:
  "fst (checkIfTokensUnlocked R E c a now) = Inr s \<longleftrightarrow>
     ethereum E
     \<and> view_fault E (Call_snapshotUnlockedUntil a) = None
     \<and> view_fault E (Call_unlockedTokenAmount a) = None
     \<and> view_fault E (Call_snapshotLastUnlockAttempt a) = None
     \<and> view_fault E (Call_commits a) = None
     \<and> (\<exists>l u. toNumber R (snapshotLastUnlockAttempt (c a)) = Inr l
          \<and> toNumber R (snapshotUnlockedUntil (c a)) = Inr u
          \<and> s = \<lparr>isUnlocked = (now \<le> u \<and> unlockedTokenAmount (c a) > 0),
                  unlockedUntil = u,
                  unlockedAmount = formatEther R (unlockedTokenAmount (c a)),
                  nextAttemptTime = l + 24 * 60 * 60,
                  hasCommit = (commits_hash (c a) \<noteq> HashZero)\<rparr>)"
proof (cases "ethereum E")
  case True
  then show ?thesis
    by (simp add: check_provider and_then_Inr_iff view_call_Inr_iff) blast
next
  case False
  then show ?thesis
    by (simp add: check_no_provider)
qed

lemma check_success_fields:
  assumes "fst (checkIfTokensUnlocked R E c a now) = Inr s"
  shows "isUnlocked s = (now \<le> unlockedUntil s \<and> 0 < unlockedTokenAmount (c a))"
    "toNumber R (snapshotUnlockedUntil (c a)) = Inr (unlockedUntil s)"
    "toNumber R (snapshotLastUnlockAttempt (c a)) = Inr (nextAttemptTime s - 24 * 60 * 60)"
    "unlockedAmount s = formatEther R (unlockedTokenAmount (c a))"
    "hasCommit s = (commits_hash (c a) \<noteq> HashZero)"
  using assms unfolding check_success_iff by auto

lemma check_success_same_side:
  assumes "fst (checkIfTokensUnlocked R E c a now) = Inr s"
    and "(now' \<le> unlockedUntil s) = (now \<le> unlockedUntil s)"
  shows "fst (checkIfTokensUnlocked R E c a now') = Inr s"
  using assms unfolding check_success_iff by auto

lemma check_failure_any_time:
  assumes "fst (checkIfTokensUnlocked R E c a now) = Inl e"
  shows "fst (checkIfTokensUnlocked R E c a now') = Inl e"
proof (cases "ethereum E")
  case True
  with assms show ?thesis
    by (simp add: check_provider and_then_Inl_iff)
next
  case False
  with assms show ?thesis
    by (simp add: check_no_provider)
qed

lemma check_calls:
  "snd (checkIfTokensUnlocked R E c a now) = (if ethereum E then status_calls a else [])"
  by (simp add: check_provider check_no_provider)

lemma check_read_fault:
  assumes "ethereum E" and "view_fault E k = Some e" and "k \<in> set (status_calls a)"
  shows "isl (fst (checkIfTokensUnlocked R E c a now))"
proof (cases "fst (checkIfTokensUnlocked R E c a now)")
  case (Inl e')
  then show ?thesis
    by simp
next
  case (Inr s)
  then have "\<forall>k \<in> set (status_calls a). view_fault E k = None"
    unfolding check_success_iff by (simp add: status_calls_def)
  with assms show ?thesis
    by auto
qed

lemma check_w_cases:
  "fst (checkIfTokensUnlocked_w R E c a now) =
     (case fst (checkIfTokensUnlocked R E c a now) of Inl e \<Rightarrow> default_status | Inr s \<Rightarrow> s)"
    "snd (checkIfTokensUnlocked_w R E c a now) = snd (checkIfTokensUnlocked R E c a now)"
  by (auto simp: checkIfTokensUnlocked_w_def split: prod.splits sum.splits)

lemma balance_calls:
  "snd (getTokenBalance R E c a) = (if ethereum E then [Call_balanceOf a] else [])"
  by (simp add: getTokenBalance_def getProvider_def)

lemma lib_balance_calls:
  "snd (lib_getTokenBalance v R E c a) = (if ethereum E then [Call_balanceOf a] else [])"
proof (cases v)
  case Plain
  then show ?thesis
    by (simp add: lib_getTokenBalance_def balance_calls)
next
  case Guarded
  then have "snd (lib_getTokenBalance v R E c a) = snd (getTokenBalance R E c a)"
    by (simp add: lib_getTokenBalance_def getTokenBalance_w_def split: prod.splits sum.splits)
  then show ?thesis
    by (simp add: balance_calls)
qed

lemma lib_check_calls:
  "snd (lib_checkIfTokensUnlocked v R E c a now) = (if ethereum E then status_calls a else [])"
proof (cases v)
  case Plain
  then show ?thesis
    by (simp add: lib_checkIfTokensUnlocked_def check_calls)
next
  case Guarded
  then have "snd (lib_checkIfTokensUnlocked v R E c a now) = snd (checkIfTokensUnlocked_w R E c a now)"
    by (simp add: lib_checkIfTokensUnlocked_def split: prod.splits)
  then show ?thesis
    by (simp add: check_w_cases check_calls)
qed

lemma lib_check_fst:
  "fst (lib_checkIfTokensUnlocked v R E c a now) =
     (case v of
        Plain \<Rightarrow> fst (checkIfTokensUnlocked R E c a now)
      | Guarded \<Rightarrow> Inr (fst (checkIfTokensUnlocked_w R E c a now)))"
  by (simp add: lib_checkIfTokensUnlocked_def split: lib.splits prod.splits)

lemma lib_check_failure_any_time:
  assumes "fst (lib_checkIfTokensUnlocked v R E c a now) = Inl e"
  shows "fst (lib_checkIfTokensUnlocked v R E c a now') = Inl e"
proof (cases v)
  case Plain
  with assms have "fst (checkIfTokensUnlocked R E c a now) = Inl e"
    by (simp add: lib_check_fst)
  then have "fst (checkIfTokensUnlocked R E c a now') = Inl e"
    by (rule check_failure_any_time)
  with Plain show ?thesis
    by (simp add: lib_check_fst)
next
  case Guarded
  with assms show ?thesis
    by (simp add: lib_check_fst)
qed

lemma lib_check_success_same_side:
  assumes "fst (lib_checkIfTokensUnlocked v R E c a now) = Inr s"
    and "(now' \<le> unlockedUntil s) = (now \<le> unlockedUntil s)"
  shows "fst (lib_checkIfTokensUnlocked v R E c a now') = Inr s"
proof (cases v)
  case Plain
  with assms have "fst (checkIfTokensUnlocked R E c a now) = Inr s"
    by (simp add: lib_check_fst)
  then have "fst (checkIfTokensUnlocked R E c a now') = Inr s"
    using assms(2) by (rule check_success_same_side)
  with Plain show ?thesis
    by (simp add: lib_check_fst)
next
  case Guarded
  show ?thesis
  proof (cases "fst (checkIfTokensUnlocked R E c a now)")
    case (Inl e)
    then have "fst (checkIfTokensUnlocked R E c a now') = Inl e"
      by (rule check_failure_any_time)
    with Inl Guarded assms show ?thesis
      by (simp add: lib_check_fst check_w_cases)
  next
    case (Inr s')
    with Guarded assms have "s' = s"
      by (simp add: lib_check_fst check_w_cases)
    with Inr have "fst (checkIfTokensUnlocked R E c a now) = Inr s"
      by simp
    then have "fst (checkIfTokensUnlocked R E c a now') = Inr s"
      using assms(2) by (rule check_success_same_side)
    with Guarded show ?thesis
      by (simp add: lib_check_fst check_w_cases)
  qed
qed

section \<open>Refreshing\<close>

lemma refreshStatus_demo: "demoMode st \<Longrightarrow> refreshStatus v R E c now st = (st, [])"
  by (simp add: refreshStatus_def)

lemma refreshStatus_keeps:
  "account (fst (refreshStatus v R E c now st)) = account st"
  "connected (fst (refreshStatus v R E c now st)) = connected st"
  "demoMode (fst (refreshStatus v R E c now st)) = demoMode st"
  by (auto simp: refreshStatus_def split: prod.splits sum.splits)

lemma refreshStatus_views: "list_all is_view (snd (refreshStatus v R E c now st))"
proof -
  obtain rb kb where bal: "lib_getTokenBalance v R E c (account st) = (rb, kb)"
    by (cases "lib_getTokenBalance v R E c (account st)")
  obtain rs ks where chk: "lib_checkIfTokensUnlocked v R E c (account st) now = (rs, ks)"
    by (cases "lib_checkIfTokensUnlocked v R E c (account st) now")
  have "list_all is_view kb"
    using lib_balance_calls [of v R E c "account st"] bal by simp
  moreover have "list_all is_view ks"
    using lib_check_calls [of v R E c "account st" now] chk by (simp add: status_calls_def)
  ultimately show ?thesis
    using bal chk by (simp add: refreshStatus_def split: sum.splits)
qed

lemma refreshStatus_again:
  assumes "(now' \<le> unlockedUntil (unlockStatus (fst (refreshStatus v R E c now st))))
         = (now \<le> unlockedUntil (unlockStatus (fst (refreshStatus v R E c now st))))"
  shows "refreshStatus v R E c now' (fst (refreshStatus v R E c now st)) = refreshStatus v R E c now st"
proof (cases "account st = [] \<or> (\<not> connected st \<and> \<not> demoMode st) \<or> demoMode st")
  case True
  then show ?thesis
    by (auto simp: refreshStatus_def)
next
  case False
  then have live: "account st \<noteq> []" "connected st" "\<not> demoMode st"
    by auto
  obtain rb kb where bal: "lib_getTokenBalance v R E c (account st) = (rb, kb)"
    by (cases "lib_getTokenBalance v R E c (account st)")
  obtain rs ks where chk: "lib_checkIfTokensUnlocked v R E c (account st) now = (rs, ks)"
    by (cases "lib_checkIfTokensUnlocked v R E c (account st) now")
  have calls: "snd (lib_checkIfTokensUnlocked v R E c (account st) now') = ks"
    using lib_check_calls [of v R E c "account st" now] chk by (simp add: lib_check_calls)
  show ?thesis
  proof (cases rb)
    case (Inl e)
    with live bal show ?thesis
      by (simp add: refreshStatus_def)
  next
    case b: (Inr b)
    show ?thesis
    proof (cases rs)
      case (Inl e)
      then have "fst (lib_checkIfTokensUnlocked v R E c (account st) now') = Inl e"
        using chk lib_check_failure_any_time [of v R E c "account st" now e now'] by simp
      with calls have "lib_checkIfTokensUnlocked v R E c (account st) now' = (Inl e, ks)"
        by (simp add: prod_eq_iff)
      with live bal chk b Inl show ?thesis
        by (simp add: refreshStatus_def)
    next
      case (Inr s)
      with live bal chk b have first: "refreshStatus v R E c now st = (st\<lparr>balance := b, unlockStatus := s\<rparr>, kb @ ks)"
        by (simp add: refreshStatus_def)
      with assms have "(now' \<le> unlockedUntil s) = (now \<le> unlockedUntil s)"
        by simp
      with chk Inr have "fst (lib_checkIfTokensUnlocked v R E c (account st) now') = Inr s"
        using lib_check_success_same_side [of v R E c "account st" now s now'] by simp
      with calls have "lib_checkIfTokensUnlocked v R E c (account st) now' = (Inr s, ks)"
        by (simp add: prod_eq_iff)
      with live bal b first show ?thesis
        by (simp add: refreshStatus_def)
    qed
  qed
qed

section \<open>Running the examples\<close>

lemma fmt_five: "example_formatEther 5000000000000000000 = ''5.0''"
  by (simp add: example_formatEther_def show_nat.simps digit_def Let_def)

lemma fmt_zero: "example_formatEther 0 = ''0.0''"
  by (simp add: example_formatEther_def show_nat.simps digit_def Let_def)

lemma parse_42: "example_parseInt ''42'' = Some 42"
  by (simp add: example_parseInt_def digit_value_def)

lemma alice_nonempty: "alice \<noteq> []"
  by (simp add: alice_def)

lemmas run_defs = alice_nonempty
  refreshStatus_def lib_getTokenBalance_def getTokenBalance_def getTokenBalance_w_def
  getProvider_def view_call_def and_then_def lib_checkIfTokensUnlocked_def
  checkIfTokensUnlocked_def checkIfTokensUnlocked_w_def status_calls_def default_status_def
  example_runtime_def example_toNumber_def fmt_five fmt_zero parse_42 HashZero_def

lemma refresh_example:
  "refreshStatus Plain example_runtime reverting_env unlocked_chain 90000 live_dashboard =
     (live_dashboard\<lparr>balance := ''5.0'',
        unlockStatus := \<lparr>isUnlocked = True, unlockedUntil = 176397, unlockedAmount = ''5.0'',
                        nextAttemptTime = 176397, hasCommit = False\<rparr>\<rparr>,
      [Call_balanceOf alice, Call_snapshotUnlockedUntil alice, Call_unlockedTokenAmount alice,
       Call_snapshotLastUnlockAttempt alice, Call_commits alice])"
  by (simp add: run_defs reverting_env_def unlocked_chain_def live_dashboard_def)

lemma demo_dashboard_eq:
  "demo_dashboard =
     \<lparr>connected = True, account = ''0xf39Fd6e51aad88F6F4ce6aB8827279cffFb92266'',
      balance = ''1000.0'', demoMode = True, unlockStatus = default_status\<rparr>"
  by (simp add: demo_dashboard_def handleConnect_def initial_dashboard_def)

lemma live_dashboard_fields:
  "\<not> demoMode live_dashboard" "connected live_dashboard" "account live_dashboard = alice"
  "hasCommit (unlockStatus live_dashboard)" "nextAttemptTime (unlockStatus live_dashboard) = 86900"
  by (simp_all add: live_dashboard_def)

section \<open>The unlocked flag\<close>

lemma handleDemoReveal_status:
  "unlockStatus (handleDemoReveal True now st) =
     \<lparr>isUnlocked = True, unlockedUntil = now + 86400, unlockedAmount = ''1000.0'',
      nextAttemptTime = 0, hasCommit = False\<rparr>"
  "unlockStatus (handleDemoReveal False now st) =
     \<lparr>isUnlocked = False, unlockedUntil = 0, unlockedAmount = ''0'',
      nextAttemptTime = now + 86400, hasCommit = False\<rparr>"
  by (simp_all add: handleDemoReveal_def)

lemma handleDemoReveal_keeps:
  "connected (handleDemoReveal b now st) = connected st"
  "account (handleDemoReveal b now st) = account st"
  "balance (handleDemoReveal b now st) = balance st"
  "demoMode (handleDemoReveal b now st) = demoMode st"
  by (simp_all add: handleDemoReveal_def)

lemma handleUnlock_demo:
  "demoMode st \<Longrightarrow>
   handleUnlock v R E c now st =
     (st\<lparr>unlockStatus :=
        \<lparr>isUnlocked = True, unlockedUntil = now + 86400, unlockedAmount = ''1000.0'',
         nextAttemptTime = 0, hasCommit = False\<rparr>\<rparr>, [])"
  by (simp add: handleUnlock_def)

lemma amountPositive_literals:
  "amountPositive ''1000.0''" "\<not> amountPositive ''0''"
  by (simp_all add: amountPositive_def)

text \<open>
  C1, as the code has it. A snapshot returned by either variant of
  \<open>checkIfTokensUnlocked\<close> carries \<open>isUnlocked = (now \<le> unlockedUntil \<and> amount > 0)\<close> for
  the clock \<open>now\<close> of the query and the amount read from the contract (the variant of
  src/lib/wallet.ts may return the default snapshot instead), and every snapshot that the
  demo handlers write agrees with the formula at the moment it is written. In demo
  mode the flag is a stored field: a refresh leaves the whole snapshot as it is.
\<close>

theorem isUnlocked_when_produced:
  "(fst (checkIfTokensUnlocked R E c a now) = Inr s \<longrightarrow>
      isUnlocked s = (now \<le> unlockedUntil s \<and> 0 < unlockedTokenAmount (c a)))
   \<and> (isUnlocked (fst (checkIfTokensUnlocked_w R E c a now))
        = (now \<le> unlockedUntil (fst (checkIfTokensUnlocked_w R E c a now))
           \<and> 0 < unlockedTokenAmount (c a))
      \<or> fst (checkIfTokensUnlocked_w R E c a now) = default_status)
   \<and> isUnlocked default_status = derived_flag now default_status
   \<and> isUnlocked (unlockStatus (handleDemoReveal b now st))
       = derived_flag now (unlockStatus (handleDemoReveal b now st))
   \<and> (demoMode st \<longrightarrow>
        isUnlocked (unlockStatus (fst (handleUnlock v R E c now st)))
          = derived_flag now (unlockStatus (fst (handleUnlock v R E c now st)))
        \<and> refreshStatus v R E c now' st = (st, []))"
proof -
  have live: "isUnlocked s = (now \<le> unlockedUntil s \<and> 0 < unlockedTokenAmount (c a))"
    if "fst (checkIfTokensUnlocked R E c a now) = Inr s" for s
    using that by (rule check_success_fields)
  have guarded: "isUnlocked (fst (checkIfTokensUnlocked_w R E c a now))
        = (now \<le> unlockedUntil (fst (checkIfTokensUnlocked_w R E c a now))
           \<and> 0 < unlockedTokenAmount (c a))
      \<or> fst (checkIfTokensUnlocked_w R E c a now) = default_status"
  proof (cases "fst (checkIfTokensUnlocked R E c a now)")
    case (Inl e)
    then show ?thesis
      by (simp add: check_w_cases)
  next
    case (Inr s')
    then show ?thesis
      using live [of s'] by (simp add: check_w_cases)
  qed
  have default: "isUnlocked default_status = derived_flag now default_status"
    by (simp add: default_status_def derived_flag_def amountPositive_literals)
  have demo: "isUnlocked (unlockStatus (handleDemoReveal b now st))
       = derived_flag now (unlockStatus (handleDemoReveal b now st))"
    by (cases b) (simp_all add: handleDemoReveal_status derived_flag_def amountPositive_literals)
  have unlock: "isUnlocked (unlockStatus (fst (handleUnlock v R E c now st)))
          = derived_flag now (unlockStatus (fst (handleUnlock v R E c now st)))"
    if "demoMode st"
    using that by (simp add: handleUnlock_demo derived_flag_def amountPositive_literals)
  show ?thesis
    using live guarded default demo unlock refreshStatus_demo [of st v R E c now']
    by blast
qed

theorem isUnlocked_when_produced_witness:
  "fst (checkIfTokensUnlocked example_runtime reverting_env unlocked_chain alice 90000)
     = Inr \<lparr>isUnlocked = True, unlockedUntil = 176397, unlockedAmount = ''5.0'',
            nextAttemptTime = 176397, hasCommit = False\<rparr>
   \<and> (90000::int) \<le> 176397 \<and> 0 < unlockedTokenAmount (unlocked_chain alice)
   \<and> demoMode demo_dashboard
   \<and> isUnlocked (unlockStatus (fst (handleUnlock Plain example_runtime reverting_env
        unlocked_chain 90000 demo_dashboard)))
   \<and> derived_flag 90000 (unlockStatus (fst (handleUnlock Plain example_runtime reverting_env
        unlocked_chain 90000 demo_dashboard)))"
  using isUnlocked_when_produced
    [where R = example_runtime and E = reverting_env and c = unlocked_chain and a = alice
       and now = 90000 and b = True and st = demo_dashboard and v = Plain and now' = 90030
       and s = "\<lparr>isUnlocked = True, unlockedUntil = 176397, unlockedAmount = ''5.0'',
          nextAttemptTime = 176397, hasCommit = False\<rparr>"]
  by (simp add: run_defs reverting_env_def unlocked_chain_def demo_dashboard_eq handleUnlock_def)

text \<open>
  C1 as stated fails in demo mode: one second after the unlock window written by a
  successful demo reveal at second 1000 has closed, a refresh leaves the snapshot's flag
  set, while the formula on the snapshot's own fields is false.
\<close>

theorem demo_flag_stale:
  "isUnlocked (unlockStatus (fst (refreshStatus Plain example_runtime no_wallet_env empty_chain
      87401 unlocked_demo)))
   \<and> \<not> derived_flag 87401 (unlockStatus (fst (refreshStatus Plain example_runtime no_wallet_env
      empty_chain 87401 unlocked_demo)))"
  by (simp add: unlocked_demo_def refreshStatus_demo handleDemoReveal_keeps
      handleDemoReveal_status demo_dashboard_eq derived_flag_def)

section \<open>Failure of the status query\<close>

lemma check_fault_origin:
  assumes "fst (checkIfTokensUnlocked R E c a now) = Inl e"
  shows "e = Fault TransportError ''MetaMask is not installed''
     \<or> list_ex (\<lambda>k. view_fault E k = Some e) (status_calls a)
     \<or> toNumber R (snapshotLastUnlockAttempt (c a)) = Inl e
     \<or> toNumber R (snapshotUnlockedUntil (c a)) = Inl e"
proof (cases "ethereum E")
  case True
  with assms show ?thesis
    by (auto simp: check_provider and_then_Inl_iff view_call_Inl_iff view_call_Inr_iff
        status_calls_def)
next
  case False
  with assms show ?thesis
    by (simp add: check_no_provider)
qed

lemma check_reads_ok:
  assumes "ethereum E" and "list_all (\<lambda>k. view_fault E k = None) (status_calls a)"
  shows "fst (checkIfTokensUnlocked R E c a now) =
     and_then (toNumber R (snapshotLastUnlockAttempt (c a))) (\<lambda>l.
     and_then (toNumber R (snapshotUnlockedUntil (c a))) (\<lambda>u.
       Inr \<lparr>isUnlocked = (now \<le> u \<and> unlockedTokenAmount (c a) > 0),
            unlockedUntil = u,
            unlockedAmount = formatEther R (unlockedTokenAmount (c a)),
            nextAttemptTime = l + 24 * 60 * 60,
            hasCommit = (commits_hash (c a) \<noteq> HashZero)\<rparr>))"
  using assms
  by (simp add: check_provider status_calls_def view_call_def and_then_Inr)

lemma check_toNumber_throws:
  assumes "ethereum E" and "list_all (\<lambda>k. view_fault E k = None) (status_calls a)"
  shows "toNumber R (snapshotLastUnlockAttempt (c a)) = Inl e \<Longrightarrow>
      fst (checkIfTokensUnlocked R E c a now) = Inl e"
    "toNumber R (snapshotLastUnlockAttempt (c a)) = Inr l \<Longrightarrow>
      toNumber R (snapshotUnlockedUntil (c a)) = Inl e \<Longrightarrow>
      fst (checkIfTokensUnlocked R E c a now) = Inl e"
  by (simp_all add: check_reads_ok [OF assms] and_then_Inl and_then_Inr)

lemma check_rejects_iff:
  "isl (fst (checkIfTokensUnlocked R E c a now)) \<longleftrightarrow>
     \<not> ethereum E
     \<or> list_ex (\<lambda>k. view_fault E k \<noteq> None) (status_calls a)
     \<or> isl (toNumber R (snapshotLastUnlockAttempt (c a)))
     \<or> isl (toNumber R (snapshotUnlockedUntil (c a)))"
proof (cases "ethereum E \<and> list_all (\<lambda>k. view_fault E k = None) (status_calls a)")
  case True
  then have "fst (checkIfTokensUnlocked R E c a now) =
     and_then (toNumber R (snapshotLastUnlockAttempt (c a))) (\<lambda>l.
     and_then (toNumber R (snapshotUnlockedUntil (c a))) (\<lambda>u.
       Inr \<lparr>isUnlocked = (now \<le> u \<and> unlockedTokenAmount (c a) > 0),
            unlockedUntil = u,
            unlockedAmount = formatEther R (unlockedTokenAmount (c a)),
            nextAttemptTime = l + 24 * 60 * 60,
            hasCommit = (commits_hash (c a) \<noteq> HashZero)\<rparr>))"
    by (simp add: check_reads_ok)
  moreover have "\<not> list_ex (\<lambda>k. view_fault E k \<noteq> None) (status_calls a)"
    using True by (simp add: list_ex_iff list_all_iff)
  ultimately show ?thesis
    using True
    by (cases "toNumber R (snapshotLastUnlockAttempt (c a))";
        cases "toNumber R (snapshotUnlockedUntil (c a))")
      (simp_all add: and_then_Inl and_then_Inr)
next
  case False
  show ?thesis
  proof (cases "ethereum E")
    case no: False
    then show ?thesis
      by (simp add: check_no_provider)
  next
    case True
    with False obtain k e where k: "k \<in> set (status_calls a)" "view_fault E k = Some e"
      by (auto simp: list_all_iff)
    then have "isl (fst (checkIfTokensUnlocked R E c a now))"
      using True check_read_fault by blast
    moreover have "list_ex (\<lambda>k. view_fault E k \<noteq> None) (status_calls a)"
      using k by (auto simp: list_ex_iff)
    ultimately show ?thesis
      by simp
  qed
qed

text \<open>
  C3, as the code has it. \<open>checkIfTokensUnlocked\<close> of src/lib/contract.ts rejects, and
  returns no snapshot, exactly when the provider is missing, one of the four reads
  fails, or \<open>toNumber\<close> throws on the last attempt or on \<open>unlockedUntil\<close>; a throwing
  \<open>toNumber\<close> is the rejection when the reads succeed, and the error it rejects with is
  always the provider's, a read's or \<open>toNumber\<close>'s. The variant in src/lib/wallet.ts
  catches every such error and returns the default snapshot.
\<close>

theorem status_query_failure:
  "(\<not> ethereum E \<longrightarrow>
      fst (checkIfTokensUnlocked R E c a now) = Inl (Fault TransportError ''MetaMask is not installed''))
   \<and> (ethereum E \<and> view_fault E k = Some e \<and> k \<in> set (status_calls a) \<longrightarrow>
        isl (fst (checkIfTokensUnlocked R E c a now)))
   \<and> (ethereum E \<and> list_all (\<lambda>k. view_fault E k = None) (status_calls a)
        \<and> toNumber R (snapshotLastUnlockAttempt (c a)) = Inl e \<longrightarrow>
        fst (checkIfTokensUnlocked R E c a now) = Inl e)
   \<and> (ethereum E \<and> list_all (\<lambda>k. view_fault E k = None) (status_calls a)
        \<and> toNumber R (snapshotLastUnlockAttempt (c a)) = Inr l
        \<and> toNumber R (snapshotUnlockedUntil (c a)) = Inl e \<longrightarrow>
        fst (checkIfTokensUnlocked R E c a now) = Inl e)
   \<and> (isl (fst (checkIfTokensUnlocked R E c a now)) \<longleftrightarrow>
        \<not> ethereum E
        \<or> list_ex (\<lambda>k. view_fault E k \<noteq> None) (status_calls a)
        \<or> isl (toNumber R (snapshotLastUnlockAttempt (c a)))
        \<or> isl (toNumber R (snapshotUnlockedUntil (c a))))
   \<and> (fst (checkIfTokensUnlocked R E c a now) = Inl e' \<longrightarrow>
        (e' = Fault TransportError ''MetaMask is not installed''
         \<or> list_ex (\<lambda>k. view_fault E k = Some e') (status_calls a)
         \<or> toNumber R (snapshotLastUnlockAttempt (c a)) = Inl e'
         \<or> toNumber R (snapshotUnlockedUntil (c a)) = Inl e')
        \<and> fst (checkIfTokensUnlocked_w R E c a now) = default_status)"
proof -
  have caught: "fst (checkIfTokensUnlocked_w R E c a now) = default_status"
    if "fst (checkIfTokensUnlocked R E c a now) = Inl e'"
    using that by (simp add: check_w_cases)
  have first: "fst (checkIfTokensUnlocked R E c a now) = Inl e"
    if "ethereum E" "list_all (\<lambda>k. view_fault E k = None) (status_calls a)"
      "toNumber R (snapshotLastUnlockAttempt (c a)) = Inl e"
    using that by (rule check_toNumber_throws)
  have second: "fst (checkIfTokensUnlocked R E c a now) = Inl e"
    if "ethereum E" "list_all (\<lambda>k. view_fault E k = None) (status_calls a)"
      "toNumber R (snapshotLastUnlockAttempt (c a)) = Inr l"
      "toNumber R (snapshotUnlockedUntil (c a)) = Inl e"
    using that by (rule check_toNumber_throws)
  have provider: "fst (checkIfTokensUnlocked R E c a now)
      = Inl (Fault TransportError ''MetaMask is not installed'')" if "\<not> ethereum E"
    using that by (simp add: check_no_provider)
  show ?thesis
    using provider check_read_fault [of E k e a R c now] first second
      check_rejects_iff [of R E c a now] check_fault_origin [of R E c a now e'] caught
    by blast
qed

lemma overflow_example:
  "toNumber example_runtime (snapshotLastUnlockAttempt (overflow_chain alice)) = Inr 500"
  "toNumber example_runtime (snapshotUnlockedUntil (overflow_chain alice))
     = Inl (Fault NumericFault ''overflow'')"
  "list_all (\<lambda>k. view_fault reverting_env k = None) (status_calls alice)"
  "ethereum reverting_env"
  by (simp_all add: example_runtime_def example_toNumber_def overflow_chain_def
      reverting_env_def status_calls_def)

theorem status_query_failure_witness:
  "\<not> ethereum no_wallet_env
   \<and> fst (checkIfTokensUnlocked example_runtime no_wallet_env committed_chain alice 1000)
       = Inl (Fault TransportError ''MetaMask is not installed'')
   \<and> fst (checkIfTokensUnlocked_w example_runtime no_wallet_env committed_chain alice 1000)
       = default_status
   \<and> ethereum offline_env
   \<and> view_fault offline_env (Call_commits alice)
       = Some (Fault TransportError ''could not detect network'')
   \<and> Call_commits alice \<in> set (status_calls alice)
   \<and> isl (fst (checkIfTokensUnlocked example_runtime offline_env committed_chain alice 1000))
   \<and> ethereum reverting_env
   \<and> list_all (\<lambda>k. view_fault reverting_env k = None) (status_calls alice)
   \<and> toNumber example_runtime (snapshotLastUnlockAttempt (overflow_chain alice)) = Inr 500
   \<and> toNumber example_runtime (snapshotUnlockedUntil (overflow_chain alice))
       = Inl (Fault NumericFault ''overflow'')
   \<and> fst (checkIfTokensUnlocked example_runtime reverting_env overflow_chain alice 1000)
       = Inl (Fault NumericFault ''overflow'')
   \<and> fst (checkIfTokensUnlocked_w example_runtime reverting_env overflow_chain alice 1000)
       = default_status"
proof -
  have missing: "fst (checkIfTokensUnlocked example_runtime no_wallet_env committed_chain alice 1000)
       = Inl (Fault TransportError ''MetaMask is not installed'')
     \<and> fst (checkIfTokensUnlocked_w example_runtime no_wallet_env committed_chain alice 1000)
       = default_status"
    using status_query_failure
      [where E = no_wallet_env and R = example_runtime and c = committed_chain and a = alice
         and now = 1000 and e' = "Fault TransportError ''MetaMask is not installed''"]
    by (simp add: no_wallet_env_def)
  have offline: "isl (fst (checkIfTokensUnlocked example_runtime offline_env committed_chain alice 1000))"
    using status_query_failure
      [where E = offline_env and R = example_runtime and c = committed_chain and a = alice
         and now = 1000 and k = "Call_commits alice"
         and e = "Fault TransportError ''could not detect network''"]
    by (simp add: offline_env_def status_calls_def)
  have overflow: "fst (checkIfTokensUnlocked example_runtime reverting_env overflow_chain alice 1000)
       = Inl (Fault NumericFault ''overflow'')"
    using status_query_failure
      [where E = reverting_env and R = example_runtime and c = overflow_chain and a = alice
         and now = 1000 and e = "Fault NumericFault ''overflow''" and l = 500]
      overflow_example
    by blast
  then have "fst (checkIfTokensUnlocked_w example_runtime reverting_env overflow_chain alice 1000)
       = default_status"
    using status_query_failure
      [where E = reverting_env and R = example_runtime and c = overflow_chain and a = alice
         and now = 1000 and e' = "Fault NumericFault ''overflow''"]
    by blast
  with missing offline overflow overflow_example show ?thesis
    by (simp add: no_wallet_env_def offline_env_def status_calls_def)
qed

text \<open>
  C3 as stated fails for the variant in src/lib/wallet.ts: without a provider the query
  returns the all-zero, locked, no-commit snapshot, although the chain holds a commit
  for the account.
\<close>

theorem status_query_fabricates_default:
  "getProvider no_wallet_env = Inl (Fault TransportError ''MetaMask is not installed'')
   \<and> commits_hash (committed_chain alice) \<noteq> HashZero
   \<and> fst (checkIfTokensUnlocked_w example_runtime no_wallet_env committed_chain alice 1000)
       = \<lparr>isUnlocked = False, unlockedUntil = 0, unlockedAmount = ''0'',
          nextAttemptTime = 0, hasCommit = False\<rparr>"
  by (simp add: run_defs no_wallet_env_def committed_chain_def)


section \<open>Failures of a reveal\<close>









lemma mismatch_message:
  "revealErrorMessage ''execution reverted: Hash does not match''
     = ''The number doesn't match your committed hash''"
  by (simp add: revealErrorMessage_def)














section \<open>Two refreshes in succession\<close>

lemma lib_balance_reads_ok:
  assumes "ethereum E" and "view_fault E (Call_balanceOf a) = None"
  shows "lib_getTokenBalance v R E c a = (Inr (formatEther R (balanceOf (c a))), [Call_balanceOf a])"
  using assms
  by (cases v)
    (simp_all add: lib_getTokenBalance_def getTokenBalance_w_def getTokenBalance_def
      getProvider_def view_call_def and_then_Inr)

lemma lib_balance_rejects_iff:
  "isl (fst (lib_getTokenBalance v R E c a)) \<longleftrightarrow>
     v = Plain \<and> (\<not> ethereum E \<or> view_fault E (Call_balanceOf a) \<noteq> None)"
  by (cases v)
    (auto simp: lib_getTokenBalance_def getTokenBalance_w_def getTokenBalance_def
      getProvider_def view_call_def and_then_def split: option.splits prod.splits sum.splits)

lemma lib_check_rejects:
  assumes "isl (fst (checkIfTokensUnlocked R E c a now))"
  shows "fst (lib_checkIfTokensUnlocked v R E c a now) =
     (case v of Plain \<Rightarrow> fst (checkIfTokensUnlocked R E c a now) | Guarded \<Rightarrow> Inr default_status)"
  using assms
  by (cases "fst (checkIfTokensUnlocked R E c a now)")
    (simp_all add: lib_check_fst check_w_cases split: lib.splits)

lemma refreshStatus_reads_ok:
  assumes "\<not> demoMode st" and "connected st" and "account st \<noteq> []" and "ethereum E"
    and "list_all (\<lambda>k. view_fault E k = None) (Call_balanceOf (account st) # status_calls (account st))"
    and "toNumber R (snapshotLastUnlockAttempt (c (account st))) = Inr l"
    and "toNumber R (snapshotUnlockedUntil (c (account st))) = Inr u"
  shows "fst (refreshStatus v R E c now st) =
     st\<lparr>balance := formatEther R (balanceOf (c (account st))),
        unlockStatus :=
          \<lparr>isUnlocked = (now \<le> u \<and> 0 < unlockedTokenAmount (c (account st))),
           unlockedUntil = u,
           unlockedAmount = formatEther R (unlockedTokenAmount (c (account st))),
           nextAttemptTime = l + 86400,
           hasCommit = (commits_hash (c (account st)) \<noteq> HashZero)\<rparr>\<rparr>"
proof -
  let ?s = "\<lparr>isUnlocked = (now \<le> u \<and> 0 < unlockedTokenAmount (c (account st))),
           unlockedUntil = u,
           unlockedAmount = formatEther R (unlockedTokenAmount (c (account st))),
           nextAttemptTime = l + 86400,
           hasCommit = (commits_hash (c (account st)) \<noteq> HashZero)\<rparr>"
  have bal: "lib_getTokenBalance v R E c (account st)
      = (Inr (formatEther R (balanceOf (c (account st)))), [Call_balanceOf (account st)])"
    using assms by (simp add: lib_balance_reads_ok)
  have "fst (checkIfTokensUnlocked R E c (account st) now) = Inr ?s"
    using assms by (simp add: check_reads_ok and_then_Inr)
  then have "fst (lib_checkIfTokensUnlocked v R E c (account st) now) = Inr ?s"
    by (cases v) (simp_all add: lib_check_fst check_w_cases)
  then obtain ks where "lib_checkIfTokensUnlocked v R E c (account st) now = (Inr ?s, ks)"
    by (cases "lib_checkIfTokensUnlocked v R E c (account st) now") simp
  with assms bal show ?thesis
    by (simp add: refreshStatus_def)
qed

lemma refreshStatus_query_rejects:
  assumes "\<not> demoMode st" and "connected st" and "account st \<noteq> []"
    and "isl (fst (checkIfTokensUnlocked R E c (account st) now))"
  shows "unlockStatus (fst (refreshStatus v R E c now st)) =
     (case v of Plain \<Rightarrow> unlockStatus st | Guarded \<Rightarrow> default_status)"
proof -
  obtain rb kb where bal: "lib_getTokenBalance v R E c (account st) = (rb, kb)"
    by (cases "lib_getTokenBalance v R E c (account st)")
  obtain rs ks where chk: "lib_checkIfTokensUnlocked v R E c (account st) now = (rs, ks)"
    by (cases "lib_checkIfTokensUnlocked v R E c (account st) now")
  have rs: "rs = (case v of Plain \<Rightarrow> fst (checkIfTokensUnlocked R E c (account st) now)
      | Guarded \<Rightarrow> Inr default_status)"
    using lib_check_rejects [OF assms(4), of v] chk by simp
  show ?thesis
  proof (cases v)
    case Plain
    with rs assms(4) obtain e where "rs = Inl e"
      by (cases "fst (checkIfTokensUnlocked R E c (account st) now)") auto
    with assms bal chk Plain show ?thesis
      by (cases rb) (simp_all add: refreshStatus_def)
  next
    case Guarded
    with rs have rs': "rs = Inr default_status"
      by simp
    have "\<not> isl rb"
      using lib_balance_rejects_iff [of v R E c "account st"] bal Guarded by simp
    then obtain b where "rb = Inr b"
      by (cases rb) auto
    with assms bal chk rs' Guarded show ?thesis
      by (simp add: refreshStatus_def)
  qed
qed

lemma refreshStatus_balance_rejects:
  assumes "isl (fst (lib_getTokenBalance v R E c (account st)))"
  shows "fst (refreshStatus v R E c now st) = st"
proof -
  obtain e kb where "lib_getTokenBalance v R E c (account st) = (Inl e, kb)"
    using assms by (cases "lib_getTokenBalance v R E c (account st)") (auto simp: isl_def)
  then show ?thesis
    by (simp add: refreshStatus_def)
qed

lemma refreshStatus_env:
  assumes "ethereum E' = ethereum E"
    and "list_all (\<lambda>k. view_fault E' k = view_fault E k)
           (Call_balanceOf (account st) # status_calls (account st))"
  shows "refreshStatus v R E' c now st = refreshStatus v R E c now st"
proof -
  have provider: "getProvider E' = getProvider E"
    using assms(1) by (simp add: getProvider_def)
  have reads: "view_call E' (Call_balanceOf (account st)) = view_call E (Call_balanceOf (account st))"
    "view_call E' (Call_snapshotUnlockedUntil (account st))
       = view_call E (Call_snapshotUnlockedUntil (account st))"
    "view_call E' (Call_unlockedTokenAmount (account st))
       = view_call E (Call_unlockedTokenAmount (account st))"
    "view_call E' (Call_snapshotLastUnlockAttempt (account st))
       = view_call E (Call_snapshotLastUnlockAttempt (account st))"
    "view_call E' (Call_commits (account st)) = view_call E (Call_commits (account st))"
    using assms(2) by (simp_all add: view_call_def status_calls_def fun_eq_iff)
  have "checkIfTokensUnlocked R E' c (account st) now = checkIfTokensUnlocked R E c (account st) now"
    unfolding checkIfTokensUnlocked_def by (simp only: provider reads)
  moreover have "getTokenBalance R E' c (account st) = getTokenBalance R E c (account st)"
    unfolding getTokenBalance_def by (simp only: provider reads)
  ultimately have "lib_checkIfTokensUnlocked v R E' c (account st) now
        = lib_checkIfTokensUnlocked v R E c (account st) now"
    and "lib_getTokenBalance v R E' c (account st) = lib_getTokenBalance v R E c (account st)"
    by (cases v; simp add: lib_checkIfTokensUnlocked_def lib_getTokenBalance_def
        checkIfTokensUnlocked_w_def getTokenBalance_w_def)+
  then show ?thesis
    unfolding refreshStatus_def by (simp only:)
qed

text \<open>
  C8, as the code has it. A refresh of the state that a refresh produced, on the same
  chain, gives the same state and the same calls again when it reads the same clock;
  and also with another clock reading and another environment, provided the provider is
  present in both or in neither, each of the five reads fails in both in the same way
  or in neither, and the two clock readings lie on the same side of the snapshot's
  \<open>unlockedUntil\<close>. When the status query of the second refresh rejects, the module of
  src/lib/contract.ts keeps the snapshot of the first and the one of src/lib/wallet.ts
  replaces it by the default snapshot. A refresh issues only \<open>view\<close> calls and so
  cannot change the chain.
\<close>

theorem refresh_twice_identical:
  "refreshStatus v R E c now (fst (refreshStatus v R E c now st)) = refreshStatus v R E c now st
   \<and> (ethereum E' = ethereum E
        \<and> list_all (\<lambda>k. view_fault E' k = view_fault E k)
             (Call_balanceOf (account st) # status_calls (account st))
        \<and> (now' \<le> unlockedUntil (unlockStatus (fst (refreshStatus v R E c now st))))
            = (now \<le> unlockedUntil (unlockStatus (fst (refreshStatus v R E c now st))))
      \<longrightarrow> refreshStatus v R E' c now' (fst (refreshStatus v R E c now st))
          = refreshStatus v R E c now st)
   \<and> (\<not> demoMode st \<and> connected st \<and> account st \<noteq> []
        \<and> isl (fst (checkIfTokensUnlocked R E' c (account st) now'))
      \<longrightarrow> unlockStatus (fst (refreshStatus v R E' c now' (fst (refreshStatus v R E c now st))))
          = (case v of Plain \<Rightarrow> unlockStatus (fst (refreshStatus v R E c now st))
             | Guarded \<Rightarrow> default_status))
   \<and> list_all is_view (snd (refreshStatus v R E c now st))"
proof -
  let ?st = "fst (refreshStatus v R E c now st)"
  have same: "refreshStatus v R E c now ?st = refreshStatus v R E c now st"
    using refreshStatus_again [of now v R E c now st] by simp
  have other: "refreshStatus v R E' c now' ?st = refreshStatus v R E c now st"
    if "ethereum E' = ethereum E"
      "list_all (\<lambda>k. view_fault E' k = view_fault E k)
         (Call_balanceOf (account st) # status_calls (account st))"
      "(now' \<le> unlockedUntil (unlockStatus ?st)) = (now \<le> unlockedUntil (unlockStatus ?st))"
  proof -
    have "refreshStatus v R E' c now' ?st = refreshStatus v R E c now' ?st"
      using that(1,2) by (intro refreshStatus_env) (simp_all only: refreshStatus_keeps)
    also have "\<dots> = refreshStatus v R E c now st"
      using that(3) by (rule refreshStatus_again)
    finally show ?thesis .
  qed
  have rejects: "unlockStatus (fst (refreshStatus v R E' c now' ?st))
      = (case v of Plain \<Rightarrow> unlockStatus ?st | Guarded \<Rightarrow> default_status)"
    if "\<not> demoMode st" "connected st" "account st \<noteq> []"
      "isl (fst (checkIfTokensUnlocked R E' c (account st) now'))"
    using that refreshStatus_query_rejects [where st = ?st and R = R and E = E' and c = c
        and now = now' and v = v]
    by (simp add: refreshStatus_keeps)
  have views: "list_all is_view (snd (refreshStatus v R E c now st))"
    by (rule refreshStatus_views)
  show ?thesis
    using same other rejects views by blast
qed

lemma refresh_example_w:
  "refreshStatus Guarded example_runtime reverting_env unlocked_chain 90000 live_dashboard =
     (live_dashboard\<lparr>balance := ''5.0'',
        unlockStatus := \<lparr>isUnlocked = True, unlockedUntil = 176397, unlockedAmount = ''5.0'',
                        nextAttemptTime = 176397, hasCommit = False\<rparr>\<rparr>,
      [Call_balanceOf alice, Call_snapshotUnlockedUntil alice, Call_unlockedTokenAmount alice,
       Call_snapshotLastUnlockAttempt alice, Call_commits alice])"
  by (simp add: run_defs reverting_env_def unlocked_chain_def live_dashboard_def)

lemma same_reads:
  "ethereum declining_env = ethereum reverting_env"
  "list_all (\<lambda>k. view_fault declining_env k = view_fault reverting_env k)
     (Call_balanceOf (account live_dashboard) # status_calls (account live_dashboard))"
  by (simp_all add: declining_env_def reverting_env_def status_calls_def)

lemma outage_reads:
  "isl (fst (checkIfTokensUnlocked example_runtime offline_env unlocked_chain
     (account live_dashboard) 90001))"
  "account live_dashboard \<noteq> []"
  by (simp_all add: check_rejects_iff offline_env_def status_calls_def live_dashboard_def
      alice_def)

lemma refreshed_snapshot:
  "unlockStatus (fst (refreshStatus Plain example_runtime reverting_env unlocked_chain 90000
      live_dashboard))
   = \<lparr>isUnlocked = True, unlockedUntil = 176397, unlockedAmount = ''5.0'',
      nextAttemptTime = 176397, hasCommit = False\<rparr>"
  "unlockStatus (fst (refreshStatus Guarded example_runtime reverting_env unlocked_chain 90000
      live_dashboard))
   = \<lparr>isUnlocked = True, unlockedUntil = 176397, unlockedAmount = ''5.0'',
      nextAttemptTime = 176397, hasCommit = False\<rparr>"
  "((90001::int) \<le> unlockedUntil (unlockStatus (fst (refreshStatus Plain example_runtime
      reverting_env unlocked_chain 90000 live_dashboard))))
   = ((90000::int) \<le> unlockedUntil (unlockStatus (fst (refreshStatus Plain example_runtime
      reverting_env unlocked_chain 90000 live_dashboard))))"
  by (simp_all add: refresh_example refresh_example_w)

theorem refresh_twice_identical_witness:
  "ethereum declining_env = ethereum reverting_env
   \<and> list_all (\<lambda>k. view_fault declining_env k = view_fault reverting_env k)
        (Call_balanceOf (account live_dashboard) # status_calls (account live_dashboard))
   \<and> ((90001::int) \<le> unlockedUntil (unlockStatus (fst (refreshStatus Plain example_runtime
        reverting_env unlocked_chain 90000 live_dashboard))))
      = ((90000::int) \<le> unlockedUntil (unlockStatus (fst (refreshStatus Plain example_runtime
        reverting_env unlocked_chain 90000 live_dashboard))))
   \<and> refreshStatus Plain example_runtime declining_env unlocked_chain 90001
        (fst (refreshStatus Plain example_runtime reverting_env unlocked_chain 90000
          live_dashboard))
      = refreshStatus Plain example_runtime reverting_env unlocked_chain 90000 live_dashboard
   \<and> unlockStatus (fst (refreshStatus Plain example_runtime declining_env unlocked_chain 90001
        (fst (refreshStatus Plain example_runtime reverting_env unlocked_chain 90000
          live_dashboard))))
      = \<lparr>isUnlocked = True, unlockedUntil = 176397, unlockedAmount = ''5.0'',
         nextAttemptTime = 176397, hasCommit = False\<rparr>
   \<and> \<not> demoMode live_dashboard \<and> connected live_dashboard \<and> account live_dashboard \<noteq> []
   \<and> isl (fst (checkIfTokensUnlocked example_runtime offline_env unlocked_chain
        (account live_dashboard) 90001))
   \<and> unlockStatus (fst (refreshStatus Plain example_runtime offline_env unlocked_chain 90001
        (fst (refreshStatus Plain example_runtime reverting_env unlocked_chain 90000
          live_dashboard))))
      = \<lparr>isUnlocked = True, unlockedUntil = 176397, unlockedAmount = ''5.0'',
         nextAttemptTime = 176397, hasCommit = False\<rparr>
   \<and> unlockStatus (fst (refreshStatus Guarded example_runtime offline_env unlocked_chain 90001
        (fst (refreshStatus Guarded example_runtime reverting_env unlocked_chain 90000
          live_dashboard))))
      = default_status
   \<and> list_all is_view
        (snd (refreshStatus Plain example_runtime reverting_env unlocked_chain 90000
          live_dashboard))"
proof -
  note plain = refresh_twice_identical
    [where v = Plain and R = example_runtime and E = reverting_env and c = unlocked_chain
       and now = 90000 and st = live_dashboard and now' = 90001]
  have again: "refreshStatus Plain example_runtime declining_env unlocked_chain 90001
        (fst (refreshStatus Plain example_runtime reverting_env unlocked_chain 90000
          live_dashboard))
      = refreshStatus Plain example_runtime reverting_env unlocked_chain 90000 live_dashboard"
    using plain [where E' = declining_env, THEN conjunct2, THEN conjunct1] same_reads
      refreshed_snapshot(3)
    by blast
  then have snapshot: "unlockStatus (fst (refreshStatus Plain example_runtime declining_env
        unlocked_chain 90001
        (fst (refreshStatus Plain example_runtime reverting_env unlocked_chain 90000
          live_dashboard))))
      = \<lparr>isUnlocked = True, unlockedUntil = 176397, unlockedAmount = ''5.0'',
         nextAttemptTime = 176397, hasCommit = False\<rparr>"
    by (simp only: refreshed_snapshot(1))
  have "unlockStatus (fst (refreshStatus Plain example_runtime offline_env unlocked_chain 90001
        (fst (refreshStatus Plain example_runtime reverting_env unlocked_chain 90000
          live_dashboard))))
      = (case Plain of
           Plain \<Rightarrow> unlockStatus (fst (refreshStatus Plain example_runtime reverting_env
             unlocked_chain 90000 live_dashboard))
         | Guarded \<Rightarrow> default_status)"
    using plain [where E' = offline_env, THEN conjunct2, THEN conjunct2, THEN conjunct1]
      live_dashboard_fields(1,2) outage_reads
    by blast
  then have kept: "unlockStatus (fst (refreshStatus Plain example_runtime offline_env
        unlocked_chain 90001
        (fst (refreshStatus Plain example_runtime reverting_env unlocked_chain 90000
          live_dashboard))))
      = \<lparr>isUnlocked = True, unlockedUntil = 176397, unlockedAmount = ''5.0'',
         nextAttemptTime = 176397, hasCommit = False\<rparr>"
    by (simp add: refreshed_snapshot(1))
  have "unlockStatus (fst (refreshStatus Guarded example_runtime offline_env unlocked_chain 90001
        (fst (refreshStatus Guarded example_runtime reverting_env unlocked_chain 90000
          live_dashboard))))
      = (case Guarded of
           Plain \<Rightarrow> unlockStatus (fst (refreshStatus Guarded example_runtime reverting_env
             unlocked_chain 90000 live_dashboard))
         | Guarded \<Rightarrow> default_status)"
    using refresh_twice_identical
      [where v = Guarded and R = example_runtime and E = reverting_env and c = unlocked_chain
         and now = 90000 and st = live_dashboard and now' = 90001 and E' = offline_env,
       THEN conjunct2, THEN conjunct2, THEN conjunct1]
      live_dashboard_fields(1,2) outage_reads
    by blast
  then have default: "unlockStatus (fst (refreshStatus Guarded example_runtime offline_env
        unlocked_chain 90001
        (fst (refreshStatus Guarded example_runtime reverting_env unlocked_chain 90000
          live_dashboard))))
      = default_status"
    by simp
  have views: "list_all is_view
        (snd (refreshStatus Plain example_runtime reverting_env unlocked_chain 90000
          live_dashboard))"
    using plain [where E' = offline_env] by blast
  show ?thesis
    using again snapshot kept default views same_reads refreshed_snapshot(3)
      live_dashboard_fields(1,2) outage_reads
    by blast
qed

lemma refresh_at_expiry:
  "refreshStatus Plain example_runtime reverting_env unlocked_chain 176397 live_dashboard =
     (live_dashboard\<lparr>balance := ''5.0'',
        unlockStatus := \<lparr>isUnlocked = True, unlockedUntil = 176397, unlockedAmount = ''5.0'',
                        nextAttemptTime = 176397, hasCommit = False\<rparr>\<rparr>,
      [Call_balanceOf alice, Call_snapshotUnlockedUntil alice, Call_unlockedTokenAmount alice,
       Call_snapshotLastUnlockAttempt alice, Call_commits alice])"
  by (simp add: run_defs reverting_env_def unlocked_chain_def live_dashboard_def)

lemma refresh_after_expiry:
  "refreshStatus Plain example_runtime reverting_env unlocked_chain 176398
     (live_dashboard\<lparr>balance := ''5.0'',
        unlockStatus := \<lparr>isUnlocked = True, unlockedUntil = 176397, unlockedAmount = ''5.0'',
                        nextAttemptTime = 176397, hasCommit = False\<rparr>\<rparr>) =
     (live_dashboard\<lparr>balance := ''5.0'',
        unlockStatus := \<lparr>isUnlocked = False, unlockedUntil = 176397, unlockedAmount = ''5.0'',
                        nextAttemptTime = 176397, hasCommit = False\<rparr>\<rparr>,
      [Call_balanceOf alice, Call_snapshotUnlockedUntil alice, Call_unlockedTokenAmount alice,
       Call_snapshotLastUnlockAttempt alice, Call_commits alice])"
  by (simp add: run_defs reverting_env_def unlocked_chain_def live_dashboard_def)

text \<open>
  C8 as stated fails: on an unchanged chain whose unlock window for \<open>alice\<close> ends at
  second 176397, a refresh at second 176397 and the next one a second later give
  snapshots that differ in \<open>isUnlocked\<close>, since the flag is computed from the clock of
  each query.
\<close>

theorem refresh_across_expiry_differs:
  "isUnlocked (unlockStatus (fst (refreshStatus Plain example_runtime reverting_env
      unlocked_chain 176397 live_dashboard)))
   \<and> \<not> isUnlocked (unlockStatus (fst (refreshStatus Plain example_runtime reverting_env
      unlocked_chain 176398
      (fst (refreshStatus Plain example_runtime reverting_env unlocked_chain 176397
        live_dashboard)))))
   \<and> unlockStatus (fst (refreshStatus Plain example_runtime reverting_env unlocked_chain 176398
      (fst (refreshStatus Plain example_runtime reverting_env unlocked_chain 176397
        live_dashboard))))
     \<noteq> unlockStatus (fst (refreshStatus Plain example_runtime reverting_env unlocked_chain
      176397 live_dashboard))"
  by (simp add: refresh_at_expiry refresh_after_expiry)

section \<open>Outcomes of a reveal\<close>

lemma handleReveal_demo:
  assumes "demoMode st" and "number cr \<noteq> []" and "parseInt R (number cr) = Some n"
  shows "handleReveal v R E c now draw st cr =
     (if draw < 0.2
      then (st\<lparr>unlockStatus :=
               \<lparr>isUnlocked = True, unlockedUntil = now + 86400, unlockedAmount = ''1000.0'',
                nextAttemptTime = 0, hasCommit = False\<rparr>\<rparr>,
            cr\<lparr>unlockFailed := False, isRevealing := False\<rparr>, c, [])
      else (st\<lparr>unlockStatus :=
               \<lparr>isUnlocked = False, unlockedUntil = 0, unlockedAmount = ''0'',
                nextAttemptTime = now + 86400, hasCommit = False\<rparr>\<rparr>,
            cr\<lparr>unlockFailed := True, isRevealing := False\<rparr>, c, []))"
  using assms
  by (simp add: handleReveal_def handleDemoReveal_def handleUnlock_def refreshStatus_def)

lemma handleReveal_live:
  assumes "\<not> demoMode st" and "number cr \<noteq> []" and "parseInt R (number cr) = Some n"
    and "lib_revealNumber v E c n = (Inr r, c', k)"
  shows "handleReveal v R E c now draw st cr =
     (fst (refreshStatus v R E c' now st),
      cr\<lparr>unlockFailed := \<not> success r, isRevealing := False\<rparr>, c',
      k @ (if success r
           then snd (refreshStatus v R E c' now st) @ snd (refreshStatus v R E c' now st)
           else snd (refreshStatus v R E c' now st)))"
proof (cases "success r")
  case False
  with assms show ?thesis
    by (simp add: handleReveal_def split: prod.splits)
next
  case True
  have again: "refreshStatus v R E c' now (fst (refreshStatus v R E c' now st))
      = refreshStatus v R E c' now st"
    by (rule refreshStatus_again) simp
  obtain st1 k1 where first: "refreshStatus v R E c' now st = (st1, k1)"
    by (cases "refreshStatus v R E c' now st")
  with again have "refreshStatus v R E c' now st1 = (st1, k1)"
    by simp
  with assms True first show ?thesis
    by (simp add: handleReveal_def handleUnlock_def)
qed

lemma refreshStatus_snapshot:
  "unlockStatus (fst (refreshStatus v R E c now st)) = unlockStatus st
   \<or> fst (lib_checkIfTokensUnlocked v R E c (account st) now)
       = Inr (unlockStatus (fst (refreshStatus v R E c now st)))"
  by (auto simp: refreshStatus_def split: prod.splits sum.splits)

text \<open>
  C4, as the code has it. In demo mode a reveal whose draw is not below 0.2 clears the
  commit flag, sets \<open>nextAttemptTime = now + 86400\<close> and leaves the status locked with
  \<open>unlockedUntil = 0\<close> and amount "0". Through the live backend the client writes none of
  these fields: after a reveal that returned \<open>success = false\<close> it marks the attempt as
  failed and refreshes from the chain as the call left it. When the provider exists,
  the five reads succeed and \<open>toNumber\<close> converts, the snapshot is the one computed from
  the stored values: \<open>hasCommit\<close> iff the stored hash is not zero,
  \<open>nextAttemptTime\<close> the last attempt plus 86400, \<open>unlockedUntil\<close> and the amount as
  stored. When the status query rejects, the module of src/lib/contract.ts keeps the
  previous snapshot and the one of src/lib/wallet.ts stores the default snapshot; when
  the balance query rejects, nothing changes.
\<close>

theorem failed_reveal_status:
  "(demoMode st \<and> number cr \<noteq> [] \<and> parseInt R (number cr) = Some n \<and> \<not> draw < 0.2 \<longrightarrow>
      handleReveal v R E c now draw st cr =
        (st\<lparr>unlockStatus :=
             \<lparr>isUnlocked = False, unlockedUntil = 0, unlockedAmount = ''0'',
              nextAttemptTime = now + 86400, hasCommit = False\<rparr>\<rparr>,
         cr\<lparr>unlockFailed := True, isRevealing := False\<rparr>, c, []))
   \<and> (\<not> demoMode st \<and> number cr \<noteq> [] \<and> parseInt R (number cr) = Some n
        \<and> lib_revealNumber v E c n = (Inr r, c', k) \<and> \<not> success r \<longrightarrow>
      handleReveal v R E c now draw st cr =
        (fst (refreshStatus v R E c' now st), cr\<lparr>unlockFailed := True, isRevealing := False\<rparr>,
         c', k @ snd (refreshStatus v R E c' now st)))
   \<and> (\<not> demoMode st \<and> connected st \<and> account st \<noteq> [] \<and> ethereum E
        \<and> list_all (\<lambda>k. view_fault E k = None)
              (Call_balanceOf (account st) # status_calls (account st))
        \<and> toNumber R (snapshotLastUnlockAttempt (c' (account st))) = Inr l
        \<and> toNumber R (snapshotUnlockedUntil (c' (account st))) = Inr u \<longrightarrow>
      unlockStatus (fst (refreshStatus v R E c' now st)) =
        \<lparr>isUnlocked = (now \<le> u \<and> 0 < unlockedTokenAmount (c' (account st))),
         unlockedUntil = u,
         unlockedAmount = formatEther R (unlockedTokenAmount (c' (account st))),
         nextAttemptTime = l + 86400,
         hasCommit = (commits_hash (c' (account st)) \<noteq> HashZero)\<rparr>)
   \<and> (\<not> demoMode st \<and> connected st \<and> account st \<noteq> []
        \<and> isl (fst (checkIfTokensUnlocked R E c' (account st) now)) \<longrightarrow>
      unlockStatus (fst (refreshStatus v R E c' now st)) =
        (case v of Plain \<Rightarrow> unlockStatus st | Guarded \<Rightarrow> default_status))
   \<and> (isl (fst (lib_getTokenBalance v R E c' (account st))) \<longrightarrow>
        fst (refreshStatus v R E c' now st) = st)
   \<and> (unlockStatus (fst (refreshStatus v R E c' now st)) = unlockStatus st
      \<or> fst (lib_checkIfTokensUnlocked v R E c' (account st) now)
          = Inr (unlockStatus (fst (refreshStatus v R E c' now st))))"
proof -
  have demo: "handleReveal v R E c now draw st cr =
        (st\<lparr>unlockStatus :=
             \<lparr>isUnlocked = False, unlockedUntil = 0, unlockedAmount = ''0'',
              nextAttemptTime = now + 86400, hasCommit = False\<rparr>\<rparr>,
         cr\<lparr>unlockFailed := True, isRevealing := False\<rparr>, c, [])"
    if "demoMode st" "number cr \<noteq> []" "parseInt R (number cr) = Some n" "\<not> draw < 0.2"
    using that by (simp add: handleReveal_demo)
  have live: "handleReveal v R E c now draw st cr =
        (fst (refreshStatus v R E c' now st), cr\<lparr>unlockFailed := True, isRevealing := False\<rparr>,
         c', k @ snd (refreshStatus v R E c' now st))"
    if "\<not> demoMode st" "number cr \<noteq> []" "parseInt R (number cr) = Some n"
      "lib_revealNumber v E c n = (Inr r, c', k)" "\<not> success r"
    using that by (simp add: handleReveal_live)
  have reads: "unlockStatus (fst (refreshStatus v R E c' now st)) =
        \<lparr>isUnlocked = (now \<le> u \<and> 0 < unlockedTokenAmount (c' (account st))),
         unlockedUntil = u,
         unlockedAmount = formatEther R (unlockedTokenAmount (c' (account st))),
         nextAttemptTime = l + 86400,
         hasCommit = (commits_hash (c' (account st)) \<noteq> HashZero)\<rparr>"
    if "\<not> demoMode st" "connected st" "account st \<noteq> []" "ethereum E"
      "list_all (\<lambda>k. view_fault E k = None)
         (Call_balanceOf (account st) # status_calls (account st))"
      "toNumber R (snapshotLastUnlockAttempt (c' (account st))) = Inr l"
      "toNumber R (snapshotUnlockedUntil (c' (account st))) = Inr u"
    using that refreshStatus_reads_ok [where st = st and E = E and c = c' and R = R and l = l
        and u = u and v = v and now = now]
    by simp
  have rejects: "unlockStatus (fst (refreshStatus v R E c' now st)) =
        (case v of Plain \<Rightarrow> unlockStatus st | Guarded \<Rightarrow> default_status)"
    if "\<not> demoMode st" "connected st" "account st \<noteq> []"
      "isl (fst (checkIfTokensUnlocked R E c' (account st) now))"
    using that by (rule refreshStatus_query_rejects)
  have balance: "fst (refreshStatus v R E c' now st) = st"
    if "isl (fst (lib_getTokenBalance v R E c' (account st)))"
    using that by (rule refreshStatus_balance_rejects)
  show ?thesis
    using demo live reads rejects balance refreshStatus_snapshot [of v R E c' now st] by blast
qed

lemma typed_42_valid:
  "number typed_42 \<noteq> []" "parseInt example_runtime (number typed_42) = Some 42"
  by (simp_all add: typed_42_def example_runtime_def parse_42)

lemma committed_demo_eq:
  "committed_demo =
     \<lparr>connected = True, account = ''0xf39Fd6e51aad88F6F4ce6aB8827279cffFb92266'',
      balance = ''1000.0'', demoMode = True,
      unlockStatus = default_status\<lparr>hasCommit := True\<rparr>\<rparr>"
  by (simp add: committed_demo_def handleDemoCommit_def demo_dashboard_eq)

lemma live_reveal_rejected:
  "lib_revealNumber Plain reverting_env committed_chain 42 =
     (Inr \<lparr>success = False, hash = [],
           error = Some ''The number doesn't match your committed hash''\<rparr>,
      committed_chain, [Call_revealAndUnlock 42])"
  by (simp add: lib_revealNumber_def revealNumber_def getProvider_def reveal_tx_def
      reveal_caught_def reverting_env_def mismatch_message)

lemma live_refresh_committed:
  "refreshStatus Plain example_runtime reverting_env committed_chain 90000 live_dashboard =
     (live_dashboard\<lparr>balance := ''5.0'',
        unlockStatus := \<lparr>isUnlocked = False, unlockedUntil = 0, unlockedAmount = ''0.0'',
                        nextAttemptTime = 86900, hasCommit = True\<rparr>\<rparr>,
      [Call_balanceOf alice, Call_snapshotUnlockedUntil alice,
       Call_unlockedTokenAmount alice, Call_snapshotLastUnlockAttempt alice, Call_commits alice])"
  by (simp add: run_defs reverting_env_def committed_chain_def live_dashboard_def)

lemma committed_reads:
  "ethereum reverting_env"
  "list_all (\<lambda>k. view_fault reverting_env k = None)
     (Call_balanceOf (account live_dashboard) # status_calls (account live_dashboard))"
  "toNumber example_runtime (snapshotLastUnlockAttempt (committed_chain (account live_dashboard)))
     = Inr 500"
  "toNumber example_runtime (snapshotUnlockedUntil (committed_chain (account live_dashboard)))
     = Inr 0"
  "unlockedTokenAmount (committed_chain (account live_dashboard)) = 0"
  "commits_hash (committed_chain (account live_dashboard)) \<noteq> HashZero"
  "account live_dashboard \<noteq> []"
  by (simp_all add: reverting_env_def status_calls_def live_dashboard_def committed_chain_def
      example_runtime_def example_toNumber_def HashZero_def alice_def)

lemma offline_reads:
  "isl (fst (checkIfTokensUnlocked example_runtime offline_env committed_chain
     (account live_dashboard) 90000))"
  "isl (fst (lib_getTokenBalance Plain example_runtime offline_env committed_chain
     (account live_dashboard)))"
  by (simp_all add: check_rejects_iff lib_balance_rejects_iff offline_env_def status_calls_def)

theorem failed_reveal_status_witness:
  "demoMode committed_demo \<and> number typed_42 \<noteq> []
   \<and> parseInt example_runtime (number typed_42) = Some 42 \<and> \<not> (0.5::real) < 0.2
   \<and> unlockStatus (fst (handleReveal Plain example_runtime no_wallet_env empty_chain 1000 0.5
        committed_demo typed_42))
      = \<lparr>isUnlocked = False, unlockedUntil = 0, unlockedAmount = ''0'',
         nextAttemptTime = 87400, hasCommit = False\<rparr>
   \<and> \<not> demoMode live_dashboard \<and> connected live_dashboard \<and> account live_dashboard \<noteq> []
   \<and> lib_revealNumber Plain reverting_env committed_chain 42 =
       (Inr \<lparr>success = False, hash = [],
             error = Some ''The number doesn't match your committed hash''\<rparr>,
        committed_chain, [Call_revealAndUnlock 42])
   \<and> fst (handleReveal Plain example_runtime reverting_env committed_chain 90000
        0.5 live_dashboard typed_42)
      = fst (refreshStatus Plain example_runtime reverting_env committed_chain 90000 live_dashboard)
   \<and> unlockStatus (fst (refreshStatus Plain example_runtime reverting_env committed_chain 90000
        live_dashboard))
      = \<lparr>isUnlocked = False, unlockedUntil = 0, unlockedAmount = ''0.0'',
         nextAttemptTime = 86900, hasCommit = True\<rparr>
   \<and> isl (fst (checkIfTokensUnlocked example_runtime offline_env committed_chain
        (account live_dashboard) 90000))
   \<and> unlockStatus (fst (refreshStatus Plain example_runtime offline_env committed_chain 90000
        live_dashboard)) = unlockStatus live_dashboard
   \<and> unlockStatus (fst (refreshStatus Guarded example_runtime offline_env committed_chain 90000
        live_dashboard)) = default_status
   \<and> isl (fst (lib_getTokenBalance Plain example_runtime offline_env committed_chain
        (account live_dashboard)))
   \<and> fst (refreshStatus Plain example_runtime offline_env committed_chain 90000 live_dashboard)
      = live_dashboard"
proof -
  have demo: "unlockStatus (fst (handleReveal Plain example_runtime no_wallet_env empty_chain
        1000 0.5 committed_demo typed_42))
      = \<lparr>isUnlocked = False, unlockedUntil = 0, unlockedAmount = ''0'',
         nextAttemptTime = 87400, hasCommit = False\<rparr>"
    using failed_reveal_status
      [where st = committed_demo and cr = typed_42 and R = example_runtime and n = 42
         and draw = "0.5" and v = Plain and E = no_wallet_env and c = empty_chain and now = 1000]
    by (simp add: committed_demo_eq typed_42_valid)
  note live = failed_reveal_status
      [where st = live_dashboard and cr = typed_42 and R = example_runtime and n = 42
         and draw = "0.5" and v = Plain and E = reverting_env and c = committed_chain
         and now = 90000 and c' = committed_chain and k = "[Call_revealAndUnlock 42]"
         and l = 500 and u = 0
         and r = "\<lparr>success = False, hash = [],
               error = Some ''The number doesn't match your committed hash''\<rparr>"]
  have handled: "fst (handleReveal Plain example_runtime reverting_env committed_chain 90000
        0.5 live_dashboard typed_42)
      = fst (refreshStatus Plain example_runtime reverting_env committed_chain 90000 live_dashboard)"
    using live live_dashboard_fields typed_42_valid live_reveal_rejected
    by simp
  have "unlockStatus (fst (refreshStatus Plain example_runtime reverting_env committed_chain 90000
        live_dashboard))
      = \<lparr>isUnlocked = ((90000::int) \<le> 0
            \<and> 0 < unlockedTokenAmount (committed_chain (account live_dashboard))),
         unlockedUntil = 0,
         unlockedAmount = formatEther example_runtime
           (unlockedTokenAmount (committed_chain (account live_dashboard))),
         nextAttemptTime = 500 + 86400,
         hasCommit = (commits_hash (committed_chain (account live_dashboard)) \<noteq> HashZero)\<rparr>"
    using live [THEN conjunct2, THEN conjunct2, THEN conjunct1] live_dashboard_fields(1,2)
      committed_reads
    by blast
  then have read: "unlockStatus (fst (refreshStatus Plain example_runtime reverting_env
        committed_chain 90000 live_dashboard))
      = \<lparr>isUnlocked = False, unlockedUntil = 0, unlockedAmount = ''0.0'',
         nextAttemptTime = 86900, hasCommit = True\<rparr>"
    by (simp add: committed_reads example_runtime_def fmt_zero)
  have kept: "unlockStatus (fst (refreshStatus Plain example_runtime offline_env committed_chain
        90000 live_dashboard)) = unlockStatus live_dashboard"
    using failed_reveal_status
      [where st = live_dashboard and R = example_runtime and v = Plain and E = offline_env
         and c' = committed_chain and now = 90000]
      live_dashboard_fields offline_reads alice_nonempty
    by simp
  have default: "unlockStatus (fst (refreshStatus Guarded example_runtime offline_env
        committed_chain 90000 live_dashboard)) = default_status"
    using failed_reveal_status
      [where st = live_dashboard and R = example_runtime and v = Guarded and E = offline_env
         and c' = committed_chain and now = 90000]
      live_dashboard_fields offline_reads alice_nonempty
    by simp
  have unchanged: "fst (refreshStatus Plain example_runtime offline_env committed_chain 90000
        live_dashboard) = live_dashboard"
    using failed_reveal_status
      [where st = live_dashboard and R = example_runtime and v = Plain and E = offline_env
         and c' = committed_chain and now = 90000]
      offline_reads
    by blast
  have mode: "demoMode committed_demo"
    by (simp add: committed_demo_eq)
  have half: "\<not> (0.5::real) < 0.2"
    by simp
  show ?thesis
    using demo handled read kept default unchanged mode half typed_42_valid
      live_dashboard_fields(1,2) committed_reads(7) live_reveal_rejected offline_reads
    by blast
qed

lemma failed_live_reveal_eq:
  "failed_live_reveal =
     (live_dashboard\<lparr>balance := ''5.0'',
        unlockStatus := \<lparr>isUnlocked = False, unlockedUntil = 0, unlockedAmount = ''0.0'',
                        nextAttemptTime = 86900, hasCommit = True\<rparr>\<rparr>,
      typed_42\<lparr>unlockFailed := True\<rparr>, committed_chain,
      [Call_revealAndUnlock 42, Call_balanceOf alice, Call_snapshotUnlockedUntil alice,
       Call_unlockedTokenAmount alice, Call_snapshotLastUnlockAttempt alice, Call_commits alice])"
proof -
  have click: "failed_live_reveal =
      handleReveal Plain example_runtime reverting_env committed_chain 90000 0.5 live_dashboard typed_42"
    by (simp add: failed_live_reveal_def revealButton_click_def screen_def revealDisabled_def
        inCooldown_def live_dashboard_def typed_42_def default_status_def)
  have "handleReveal Plain example_runtime reverting_env committed_chain 90000 0.5 live_dashboard typed_42 =
      (fst (refreshStatus Plain example_runtime reverting_env committed_chain 90000 live_dashboard),
       typed_42\<lparr>unlockFailed := True, isRevealing := False\<rparr>, committed_chain,
       [Call_revealAndUnlock 42]
         @ snd (refreshStatus Plain example_runtime reverting_env committed_chain 90000 live_dashboard))"
    using live_reveal_rejected
    by (simp add: handleReveal_live [where n = 42 and k = "[Call_revealAndUnlock 42]"]
        live_dashboard_def typed_42_valid)
  with click live_refresh_committed show ?thesis
    by (simp add: typed_42_def)
qed

text \<open>
  C4 as stated fails for the live backend: the contract rejects the reveal because the
  hash does not match, the call is never mined, and after the refresh that follows the
  commit is still recorded and \<open>nextAttemptTime\<close> is still 86900, not 90000 + 86400.
\<close>

theorem live_failure_keeps_commit:
  "unlockFailed (fst (snd failed_live_reveal))
   \<and> hasCommit (unlockStatus (fst failed_live_reveal))
   \<and> nextAttemptTime (unlockStatus (fst failed_live_reveal)) = 86900
   \<and> nextAttemptTime (unlockStatus (fst failed_live_reveal)) \<noteq> 90000 + 86400"
  by (simp add: failed_live_reveal_eq)


text \<open>
  A demo reveal whose draw is below 0.2 writes \<open>unlockedUntil = now + 86400\<close>,
  \<open>hasCommit = false\<close> and the literal amount "1000.0", and leaves the balance as it
  was. The demo branch of \<open>handleConnect\<close> sets the balance to the same literal, so in a
  session that it opened the unlocked amount is the whole balance.
\<close>

lemma demo_success_status:
  assumes "demoMode st" and "number cr \<noteq> []" and "parseInt R (number cr) = Some n"
    and "draw < 0.2"
  shows "unlockStatus (fst (handleReveal v R E c now draw st cr)) =
        \<lparr>isUnlocked = True, unlockedUntil = now + 86400, unlockedAmount = ''1000.0'',
         nextAttemptTime = 0, hasCommit = False\<rparr>"
    and "balance (fst (handleReveal v R E c now draw st cr)) = balance st"
  using assms by (simp_all add: handleReveal_demo)

lemma demo_connect_balance:
  "balance (handleConnect True v R E c now st) = ''1000.0''"
  "demoMode (handleConnect True v R E c now st) = demoMode st"
  by (simp_all add: handleConnect_def)

lemma demo_session_amount_is_balance:
  assumes "demoMode st" and "number cr \<noteq> []" and "parseInt R (number cr) = Some n"
    and "draw < 0.2"
  shows "unlockedAmount (unlockStatus (fst (handleReveal v R E c now draw
           (handleDemoCommit (handleConnect True v' R' E' c' now' st)) cr)))
       = balance (fst (handleReveal v R E c now draw
           (handleDemoCommit (handleConnect True v' R' E' c' now' st)) cr))"
proof -
  let ?st = "handleDemoCommit (handleConnect True v' R' E' c' now' st)"
  have "demoMode ?st" and "balance ?st = ''1000.0''"
    using assms(1) by (simp_all add: handleDemoCommit_def demo_connect_balance)
  with assms(2-4) show ?thesis
    by (simp add: demo_success_status)
qed

lemma walletless_demo_eq:
  "walletless_demo = initial_dashboard\<lparr>demoMode := True\<rparr>"
  by (simp add: walletless_demo_def tryDemoMode_click_def handleConnect_def connectWallet_def
      initial_dashboard_def no_wallet_env_def)

lemma walletless_committed_eq:
  "walletless_committed =
     (initial_dashboard\<lparr>demoMode := True, unlockStatus := default_status\<lparr>hasCommit := True\<rparr>\<rparr>,
      typed_42, empty_chain, [])"
  by (simp add: walletless_committed_def walletless_demo_eq commitButton_click_def screen_def
      commitDisabled_def inCooldown_def handleCommit_def handleDemoCommit_def refreshStatus_def
      initial_dashboard_def default_status_def typed_42_def example_runtime_def parse_42)

lemma walletless_revealed_eq:
  "walletless_revealed =
     (initial_dashboard\<lparr>demoMode := True,
        unlockStatus := \<lparr>isUnlocked = True, unlockedUntil = 87400, unlockedAmount = ''1000.0'',
                        nextAttemptTime = 0, hasCommit = False\<rparr>\<rparr>,
      typed_42, empty_chain, [])"
proof -
  have "walletless_revealed =
      handleReveal Plain example_runtime no_wallet_env empty_chain 1000 0.1
        (initial_dashboard\<lparr>demoMode := True, unlockStatus := default_status\<lparr>hasCommit := True\<rparr>\<rparr>)
        typed_42"
    by (simp add: walletless_revealed_def walletless_committed_eq revealButton_click_def
        screen_def revealDisabled_def inCooldown_def initial_dashboard_def default_status_def
        typed_42_def)
  then show ?thesis
    by (simp add: handleReveal_demo [where n = 42] initial_dashboard_def typed_42_def
        example_runtime_def parse_42)
qed

text \<open>
  C5, where the code departs from it. In a browser without a wallet the button
  "Try Demo Mode" switches demo mode on and calls the \<open>handleConnect\<close> closure of the
  current render, which still sees \<open>demoMode = false\<close> and attempts a wallet connection;
  the attempt fails, so the demo branch that sets the balance never runs and the
  balance stays "0". After a commit of 42 and a reveal whose draw is 0.1 at second
  1000 the status has \<open>unlockedUntil = 1000 + 86400\<close> and \<open>hasCommit = false\<close>, and its
  unlocked amount is "1000.0", which is not the balance.
\<close>

theorem demo_amount_not_balance:
  "demoMode (fst walletless_revealed)
   \<and> isUnlocked (unlockStatus (fst walletless_revealed))
   \<and> unlockedUntil (unlockStatus (fst walletless_revealed)) = 1000 + 86400
   \<and> \<not> hasCommit (unlockStatus (fst walletless_revealed))
   \<and> unlockedAmount (unlockStatus (fst walletless_revealed)) = ''1000.0''
   \<and> balance (fst walletless_revealed) = ''0''
   \<and> unlockedAmount (unlockStatus (fst walletless_revealed)) \<noteq> balance (fst walletless_revealed)"
  by (simp add: walletless_revealed_eq initial_dashboard_def)

section \<open>Blocking of a new commit\<close>

text \<open>
  C6, as the code has it. While the snapshot has \<open>hasCommit\<close>, and in live mode while the
  render saw the cooldown running, the commit button is disabled: a click changes
  nothing and issues no contract call. In demo mode the cooldown does not disable the
  button.
\<close>

theorem commit_blocked:
  "(hasCommit (unlockStatus st) \<longrightarrow>
      commitButton_click v R E c rendered now st cr = (st, cr, c, []))
   \<and> (inCooldown rendered (unlockStatus st) \<and> \<not> demoMode st \<longrightarrow>
        commitButton_click v R E c rendered now st cr = (st, cr, c, []))
   \<and> (demoMode st \<longrightarrow>
        commitDisabled rendered st cr =
          (number cr = [] \<or> isCommitting cr \<or> isRevealing cr \<or> hasCommit (unlockStatus st)))"
  by (simp add: commitButton_click_def commitDisabled_def)

theorem commit_blocked_witness:
  "hasCommit (unlockStatus live_dashboard)
   \<and> inCooldown 2000 (unlockStatus live_dashboard) \<and> \<not> demoMode live_dashboard
   \<and> commitButton_click Plain example_runtime reverting_env committed_chain 2000 2002
        live_dashboard typed_42
      = (live_dashboard, typed_42, committed_chain, [])
   \<and> demoMode cooled_demo \<and> \<not> commitDisabled 2000 cooled_demo typed_42"
  using commit_blocked
    [where st = live_dashboard and rendered = 2000 and v = Plain and R = example_runtime
       and E = reverting_env and c = committed_chain and now = 2002 and cr = typed_42]
    commit_blocked [where st = cooled_demo and rendered = 2000 and cr = typed_42]
  by (simp add: live_dashboard_def inCooldown_def cooled_demo_def handleDemoReveal_keeps
      handleDemoReveal_status demo_dashboard_eq typed_42_def)

text \<open>
  C6 as stated fails in demo mode: during the cooldown that a failed demo reveal at
  second 1000 started, a click on the commit button at second 2000 records a commit.
\<close>

theorem demo_commit_in_cooldown:
  "inCooldown 2000 (unlockStatus cooled_demo)
   \<and> \<not> hasCommit (unlockStatus cooled_demo)
   \<and> hasCommit (unlockStatus (fst (commitButton_click Plain example_runtime no_wallet_env
        empty_chain 2000 2002 cooled_demo typed_42)))"
  by (simp add: cooled_demo_def handleDemoReveal_def demo_dashboard_eq inCooldown_def
      commitButton_click_def screen_def commitDisabled_def handleCommit_def handleDemoCommit_def
      refreshStatus_def typed_42_def example_runtime_def parse_42)

section \<open>The random draw of the demo reveal\<close>








section \<open>After a successful demo reveal\<close>

text \<open>
  C9, as the code has it. A successful demo reveal sets \<open>nextAttemptTime\<close> to 0, not to
  \<open>now + 86400\<close>, so \<open>inCooldown\<close> is false at every clock from 0 on. The status it
  writes is unlocked, and for an unlocked status the component renders the card
  "Tokens Unlocked" in place of the form with the commit and reveal buttons.
\<close>

theorem after_demo_success:
  "nextAttemptTime (unlockStatus (handleDemoReveal True now st)) = 0
   \<and> (0 \<le> now \<longrightarrow> nextAttemptTime (unlockStatus (handleDemoReveal True now st)) \<noteq> now + 86400)
   \<and> (0 \<le> now' \<longrightarrow> \<not> inCooldown now' (unlockStatus (handleDemoReveal True now st)))
   \<and> screen (handleDemoReveal True now st) cr = UnlockedCard
   \<and> commitButton_click v R E c rendered now' (handleDemoReveal True now st) cr
       = (handleDemoReveal True now st, cr, c, [])"
  by (simp add: handleDemoReveal_status inCooldown_def screen_def commitButton_click_def)

theorem after_demo_success_witness:
  "(0::int) \<le> 1000 \<and> (0::int) \<le> 1001
   \<and> nextAttemptTime (unlockStatus unlocked_demo) = 0
   \<and> \<not> inCooldown 1001 (unlockStatus unlocked_demo)
   \<and> screen unlocked_demo typed_42 = UnlockedCard"
  using after_demo_success [where now = 1000 and st = demo_dashboard and now' = 1001
      and cr = typed_42]
  by (simp add: unlocked_demo_def)

text \<open>
  C9 as stated fails in its last part: right after the successful demo reveal the form
  is not rendered, and a click on the commit button, with a number typed and no
  cooldown, changes nothing.
\<close>

theorem no_commit_while_unlocked:
  "\<not> inCooldown 1001 (unlockStatus unlocked_demo)
   \<and> \<not> commitDisabled 1001 unlocked_demo typed_42
   \<and> screen unlocked_demo typed_42 \<noteq> Form
   \<and> commitButton_click Plain example_runtime no_wallet_env empty_chain 1001 1003
        unlocked_demo typed_42
      = (unlocked_demo, typed_42, empty_chain, [])"
  by (simp add: unlocked_demo_def handleDemoReveal_def demo_dashboard_eq inCooldown_def
      commitDisabled_def screen_def commitButton_click_def typed_42_def)

end
